theory Spec2Isabelle
  imports Complex_Main "HOL-Library.Log_Nat" "HOL-Library.AList"
begin

section \<open>JavaScript values used by the two services\<close>

text \<open>
  Both services are Express applications (\<^verbatim>\<open>api-service-1/index.js\<close> and
  \<^verbatim>\<open>api-service-2/index.js\<close>). Every line they print is
  \<^verbatim>\<open>console.log(JSON.stringify({...}))\<close>; a printed line is modelled by the object
  handed to \<^verbatim>\<open>JSON.stringify\<close>: the list of its fields in source order. A field whose
  value is \<^verbatim>\<open>undefined\<close> is left out by \<^verbatim>\<open>JSON.stringify\<close>, and so it is here.
  \<open>JIso t\<close> stands for the string \<^verbatim>\<open>new Date(t).toISOString()\<close>.
\<close>

datatype json =
    JString string
  | JNumber rat
  | JIso int
  | JObject "(string \<times> json) list"

type_synonym event = "(string \<times> json) list"

definition opt_string :: "string \<Rightarrow> string option \<Rightarrow> event" where
  "opt_string k v = (case v of None \<Rightarrow> [] | Some s \<Rightarrow> [(k, JString s)])"

definition opt_number :: "string \<Rightarrow> nat option \<Rightarrow> event" where
  "opt_number k v = (case v of None \<Rightarrow> [] | Some n \<Rightarrow> [(k, JNumber (of_nat n))])"

text \<open>Decimal rendering of a non-negative integer inside a template literal.\<close>

fun digits10 :: "nat \<Rightarrow> string" where
  "digits10 n =
     (if n < 10 then [''0123456789'' ! n]
      else digits10 (n div 10) @ [''0123456789'' ! (n mod 10)])"

declare digits10.simps [simp del]

definition template_number :: "nat option \<Rightarrow> string" where
  "template_number v = (case v of None \<Rightarrow> ''undefined'' | Some n \<Rightarrow> digits10 n)"

subsection \<open>The doubles returned by \<^verbatim>\<open>Math.random()\<close>\<close>

text \<open>
  \<^verbatim>\<open>Math.random()\<close> returns an IEEE double \<open>x\<close> with \<open>0 \<le> x < 1\<close>. Every such
  double is \<open>mant / 2 ^ expo\<close> with a significand below \<open>2 ^ 53\<close> and
  \<open>53 \<le> expo \<le> 1074\<close>, and every such pair is one.
\<close>

record double01 =
  mant :: nat
  expo :: nat

definition is_double01 :: "double01 \<Rightarrow> bool" where
  "is_double01 d = (mant d < 2 ^ 53 \<and> 53 \<le> expo d \<and> expo d \<le> 1074)"

definition dval :: "double01 \<Rightarrow> rat" where
  "dval d = of_nat (mant d) / 2 ^ expo d"

text \<open>The double literals \<^verbatim>\<open>0.2\<close> and \<^verbatim>\<open>0.3\<close>: the doubles nearest to 1/5 and 3/10.\<close>

definition lit_0_2 :: rat where
  "lit_0_2 = 3602879701896397 / 2 ^ 54"

definition lit_0_3 :: rat where
  "lit_0_3 = 5404319552844595 / 2 ^ 54"

text \<open>
  \<open>n / 2 ^ s\<close> rounded to the nearest integer, ties to the even one: the rounding of
  IEEE arithmetic.
\<close>

definition round_even :: "nat \<Rightarrow> nat \<Rightarrow> nat" where
  "round_even n s =
     (let q = n div 2 ^ s; r = 2 * (n mod 2 ^ s)
      in if r < 2 ^ s then q
         else if 2 ^ s < r then q + 1
         else if even q then q else q + 1)"

text \<open>
  \<^verbatim>\<open>Math.random() * delays.length\<close>: the exact product \<open>mant * k / 2 ^ expo\<close> rounded
  to 53 significant bits. The exact numerator has \<open>floorlog 2 (mant * k)\<close> bits, so
  \<open>floorlog 2 (mant * k) - 53\<close> low bits are rounded away (none when it fits).
\<close>

definition js_times :: "double01 \<Rightarrow> nat \<Rightarrow> rat" where
  "js_times d k =
     (let n = mant d * k; s = floorlog 2 n - 53
      in of_nat (round_even n s * 2 ^ s) / 2 ^ expo d)"

definition math_floor :: "rat \<Rightarrow> int" where
  "math_floor x = \<lfloor>x\<rfloor>"

text \<open>Array indexing: an index outside the array yields \<^verbatim>\<open>undefined\<close>.\<close>

definition js_index :: "'a list \<Rightarrow> int \<Rightarrow> 'a option" where
  "js_index xs i = (if 0 \<le> i \<and> i < int (length xs) then Some (xs ! nat i) else None)"

text \<open>\<^verbatim>\<open>(Date.now() - start) / 1000\<close>; the JavaScript value is the double nearest to
  this quotient.\<close>

definition seconds :: "int \<Rightarrow> rat" where
  "seconds ms = of_int ms / 1000"

section \<open>The environment of a service\<close>

text \<open>
  The outcome of \<^verbatim>\<open>axios.get\<close>: the promise resolves with a response (its \<^verbatim>\<open>data\<close>
  and \<^verbatim>\<open>status\<close>) or rejects with an error (its \<^verbatim>\<open>message\<close>, \<^verbatim>\<open>code\<close> and
  \<^verbatim>\<open>stack\<close>).
\<close>

datatype peer_outcome =
    PeerOk json nat
  | PeerFail string "string option" "string option"

fun peer_ok :: "peer_outcome \<Rightarrow> bool" where
  "peer_ok (PeerOk data status) = True"
| "peer_ok (PeerFail message code stack) = False"

type_synonym labels = "string \<times> string \<times> string"

type_synonym observation = "labels \<times> rat"

record request =
  req_method :: string
  url :: string
  ip :: "string option"
  headers :: "string \<rightharpoonup> string"

text \<open>
  What the services take from outside: the wall clock (\<open>clk env n\<close> is the \<open>n\<close>-th
  reading of \<^verbatim>\<open>Date.now()\<close> or \<^verbatim>\<open>new Date()\<close>, in milliseconds), the random source
  (\<open>rnd env n\<close> is the \<open>n\<close>-th value of \<^verbatim>\<open>Math.random()\<close>), the digits that
  \<^verbatim>\<open>toString(36)\<close> prints after the point for a non-zero double below 1 (the choice of
  digits is left to the engine, which prints at least one), \<^verbatim>\<open>JSON.stringify\<close> on
  response data, the peer service, the value of the loop of \<^verbatim>\<open>/compute\<close>, the
  metrics registry's exposition text and content type, the page the framework's
  final handler sends for a status code, and whether the client's connection is still
  open when the response is finalised (a client may close it before the answer).
\<close>

record env =
  clk :: "nat \<Rightarrow> int"
  rnd :: "nat \<Rightarrow> double01"
  digits36 :: "double01 \<Rightarrow> string"
  stringify :: "json \<Rightarrow> string"
  peer :: peer_outcome
  sqrt_sum :: rat
  metrics_text :: "observation list \<Rightarrow> string"
  contentType :: string
  final_page :: "nat \<Rightarrow> request \<Rightarrow> string"
  client_open :: bool

section \<open>The response object and the process state\<close>

text \<open>
  The variables captured by the completion hook of the logging middleware:
  \<^verbatim>\<open>req\<close>, \<^verbatim>\<open>start\<close> and \<^verbatim>\<open>requestId\<close>.
\<close>

record closure =
  c_req :: request
  c_start :: int
  c_requestId :: string

text \<open>
  \<^verbatim>\<open>res.end\<close> is either the method of the HTTP library or the function that the
  middleware of api-service-1 assigns, which holds the method it replaced in
  \<^verbatim>\<open>originalEnd\<close>.
\<close>

datatype end_method =
    NativeEnd
  | LoggingEnd closure end_method

text \<open>
  \<open>ended\<close> holds the arguments of the call that finalised the response
  (\<open>None\<close> until then); \<open>finish_listeners\<close> are the listeners registered with
  \<^verbatim>\<open>res.on('finish', ...)\<close>.
\<close>

record response =
  statusCode :: nat
  res_headers :: "(string \<times> string) list"
  ended :: "(string option \<times> string option) option"
  end_method :: end_method
  finish_listeners :: "closure list"

text \<open>
  The process: how many clock readings and random draws were taken, the lines printed
  to standard output (oldest first), the observations recorded by the histogram
  \<^verbatim>\<open>http_request_duration_seconds\<close>, and the response of the request in flight.
\<close>

record world =
  ticks :: nat
  draws :: nat
  stdout :: "event list"
  hist :: "observation list"
  res :: response

definition date_now :: "env \<Rightarrow> world \<Rightarrow> int \<times> world" where
  "date_now env w = (clk env (ticks w), w\<lparr>ticks := Suc (ticks w)\<rparr>)"

definition math_random :: "env \<Rightarrow> world \<Rightarrow> double01 \<times> world" where
  "math_random env w = (rnd env (draws w), w\<lparr>draws := Suc (draws w)\<rparr>)"

definition console_log :: "event \<Rightarrow> world \<Rightarrow> world" where
  "console_log e w = w\<lparr>stdout := stdout w @ [e]\<rparr>"

definition observe :: "labels \<Rightarrow> rat \<Rightarrow> world \<Rightarrow> world" where
  "observe l v w = w\<lparr>hist := hist w @ [(l, v)]\<rparr>"

definition new_response :: response where
  "new_response =
     \<lparr>statusCode = 200, res_headers = [], ended = None, end_method = NativeEnd,
      finish_listeners = []\<rparr>"

subsection \<open>Finalising the response\<close>

text \<open>
  The return value of the library's \<^verbatim>\<open>end\<close> is the response object itself.
\<close>

datatype js_ref = This

text \<open>
  The library's \<^verbatim>\<open>end\<close>: the first call finalises the response with the given chunk
  and encoding; a call on a finished response changes nothing.
\<close>

definition native_end ::
  "string option \<Rightarrow> string option \<Rightarrow> world \<Rightarrow> js_ref \<times> world" where
  "native_end chunk encoding w =
     (This,
      if ended (res w) = None
      then w\<lparr>res := (res w)\<lparr>ended := Some (chunk, encoding)\<rparr>\<rparr>
      else w)"

text \<open>
  api-service-1, lines 37 to 52: the function assigned to \<^verbatim>\<open>res.end\<close>.
  \<^verbatim>\<open>
  res.end = function(chunk, encoding) {
    const duration = Date.now() - start;
    console.log(JSON.stringify({ level: "info",
      message: `Request completed: ${req.method} ${req.url}`,
      method: req.method, url: req.url, statusCode: res.statusCode, duration,
      requestId: requestId, service: 'api-service-1',
      timestamp: new Date().toISOString() }));
    return originalEnd.call(this, chunk, encoding);
  };
  \<close>
\<close>

definition completed1 :: "closure \<Rightarrow> nat \<Rightarrow> int \<Rightarrow> int \<Rightarrow> event" where
  "completed1 c status duration t =
     [(''level'', JString ''info''),
      (''message'',
         JString (''Request completed: '' @ req_method (c_req c) @ '' '' @ url (c_req c))),
      (''method'', JString (req_method (c_req c))),
      (''url'', JString (url (c_req c))),
      (''statusCode'', JNumber (of_nat status)),
      (''duration'', JNumber (of_int duration)),
      (''requestId'', JString (c_requestId c)),
      (''service'', JString ''api-service-1''),
      (''timestamp'', JIso t)]"

definition end_override ::
  "env \<Rightarrow> closure \<Rightarrow> (string option \<Rightarrow> string option \<Rightarrow> world \<Rightarrow> 'r \<times> world) \<Rightarrow>
   string option \<Rightarrow> string option \<Rightarrow> world \<Rightarrow> 'r \<times> world" where
  "end_override env c originalEnd chunk encoding w =
     (let (now, w1) = date_now env w;
          duration = now - c_start c;
          (t, w2) = date_now env w1;
          w3 = console_log (completed1 c (statusCode (res w2)) duration t) w2
      in originalEnd chunk encoding w3)"

primrec call_end ::
  "end_method \<Rightarrow> env \<Rightarrow> string option \<Rightarrow> string option \<Rightarrow> world \<Rightarrow> js_ref \<times> world" where
  "call_end NativeEnd env = native_end"
| "call_end (LoggingEnd c originalEnd) env = end_override env c (call_end originalEnd env)"

text \<open>\<^verbatim>\<open>res.end(chunk, encoding)\<close>: whatever function \<^verbatim>\<open>res.end\<close> holds is called.\<close>

definition res_end :: "env \<Rightarrow> string option \<Rightarrow> string option \<Rightarrow> world \<Rightarrow> world" where
  "res_end env chunk encoding w = snd (call_end (end_method (res w)) env chunk encoding w)"

text \<open>
  The framework's response helpers, as far as the services use them:
  \<^verbatim>\<open>res.status(n)\<close> assigns \<^verbatim>\<open>res.statusCode\<close>; \<^verbatim>\<open>res.set\<close> stores a header;
  \<^verbatim>\<open>res.send(body)\<close> hands the body to \<^verbatim>\<open>this.end(body, 'utf8')\<close>;
  \<^verbatim>\<open>res.json(obj)\<close> sends \<^verbatim>\<open>JSON.stringify(obj)\<close>. The headers the helpers
  add on their own (content type, length, entity tag) are not part of the model.
\<close>

definition res_status :: "nat \<Rightarrow> world \<Rightarrow> world" where
  "res_status n w = w\<lparr>res := (res w)\<lparr>statusCode := n\<rparr>\<rparr>"

definition res_set :: "string \<Rightarrow> string \<Rightarrow> world \<Rightarrow> world" where
  "res_set name v w =
     w\<lparr>res := (res w)\<lparr>res_headers := AList.update name v (res_headers (res w))\<rparr>\<rparr>"

definition res_send :: "env \<Rightarrow> string \<Rightarrow> world \<Rightarrow> world" where
  "res_send env body w = res_end env (Some body) (Some ''utf8'') w"

definition res_json :: "env \<Rightarrow> json \<Rightarrow> world \<Rightarrow> world" where
  "res_json env obj w = res_send env (stringify env obj) w"

section \<open>The logging middleware\<close>

text \<open>
  Line 22 of both services:
  \<^verbatim>\<open>const requestId = req.get('X-Request-ID') || Math.random().toString(36).substring(2);\<close>
  \<^verbatim>\<open>req.get\<close> looks the header up by its lower-case name and yields \<^verbatim>\<open>undefined\<close>
  when the request has none; \<^verbatim>\<open>undefined\<close> and the empty string are the falsy values
  it can yield, and only then is the right operand of \<^verbatim>\<open>||\<close> evaluated.
  \<^verbatim>\<open>toString(36)\<close> of a double below 1 is \<^verbatim>\<open>"0"\<close> for zero and \<^verbatim>\<open>"0."\<close>
  followed by the fraction digits otherwise; \<^verbatim>\<open>substring(2)\<close> drops the first two
  characters.
\<close>

definition toString36 :: "env \<Rightarrow> double01 \<Rightarrow> string" where
  "toString36 env d = (if mant d = 0 then ''0'' else ''0.'' @ digits36 env d)"

definition substring :: "nat \<Rightarrow> string \<Rightarrow> string" where
  "substring n s = drop n s"

definition generated_id :: "env \<Rightarrow> world \<Rightarrow> string \<times> world" where
  "generated_id env w =
     (let (r, w1) = math_random env w in (substring 2 (toString36 env r), w1))"

definition requestId_of :: "env \<Rightarrow> request \<Rightarrow> world \<Rightarrow> string \<times> world" where
  "requestId_of env req w =
     (case headers req ''x-request-id'' of
        None \<Rightarrow> generated_id env w
      | Some h \<Rightarrow> if h = [] then generated_id env w else (h, w))"

subsection \<open>api-service-1\<close>

definition started1 :: "request \<Rightarrow> string \<Rightarrow> int \<Rightarrow> event" where
  "started1 req requestId t =
     [(''level'', JString ''info''),
      (''message'', JString (''Request started: '' @ req_method req @ '' '' @ url req)),
      (''method'', JString (req_method req)),
      (''url'', JString (url req))]
     @ opt_string ''ip'' (ip req)
     @ opt_string ''userAgent'' (headers req ''user-agent'')
     @ [(''requestId'', JString requestId),
        (''service'', JString ''api-service-1''),
        (''timestamp'', JIso t)]"

text \<open>
  Lines 20 to 54: the start time and the identifier are taken, the start line is
  printed, \<^verbatim>\<open>res.end\<close> is replaced, and \<^verbatim>\<open>next()\<close> passes control on.
\<close>

definition middleware1 :: "env \<Rightarrow> request \<Rightarrow> world \<Rightarrow> world" where
  "middleware1 env req w =
     (let (start, w1) = date_now env w;
          (requestId, w2) = requestId_of env req w1;
          (t, w3) = date_now env w2;
          w4 = console_log (started1 req requestId t) w3;
          originalEnd = end_method (res w4);
          c = \<lparr>c_req = req, c_start = start, c_requestId = requestId\<rparr>
      in w4\<lparr>res := (res w4)\<lparr>end_method := LoggingEnd c originalEnd\<rparr>\<rparr>)"

subsection \<open>api-service-2\<close>

definition started2 :: "request \<Rightarrow> string \<Rightarrow> int \<Rightarrow> event" where
  "started2 req requestId t =
     [(''level'', JString ''info''),
      (''message'', JString (''Request started: '' @ req_method req @ '' '' @ url req)),
      (''method'', JString (req_method req)),
      (''url'', JString (url req))]
     @ opt_string ''ip'' (ip req)
     @ opt_string ''userAgent'' (headers req ''user-agent'')
     @ [(''requestId'', JString requestId),
        (''service'', JString ''api-service-2''),
        (''timestamp'', JIso t)]"

text \<open>
  Lines 36 to 48: the listener registered with \<^verbatim>\<open>res.on('finish', ...)\<close>.
  \<^verbatim>\<open>
  res.on('finish', () => {
    const duration = Date.now() - start;
    console.log(JSON.stringify({ level: "info",
      message: `Request completed: ${req.method} ${req.url}`,
      method: req.method, url: req.url, statusCode: res.statusCode, duration,
      service: 'api-service-2', timestamp: new Date().toISOString() }));
  });
  \<close>
\<close>

definition completed2 :: "closure \<Rightarrow> nat \<Rightarrow> int \<Rightarrow> int \<Rightarrow> event" where
  "completed2 c status duration t =
     [(''level'', JString ''info''),
      (''message'',
         JString (''Request completed: '' @ req_method (c_req c) @ '' '' @ url (c_req c))),
      (''method'', JString (req_method (c_req c))),
      (''url'', JString (url (c_req c))),
      (''statusCode'', JNumber (of_nat status)),
      (''duration'', JNumber (of_int duration)),
      (''service'', JString ''api-service-2''),
      (''timestamp'', JIso t)]"

definition finish_listener :: "env \<Rightarrow> closure \<Rightarrow> world \<Rightarrow> world" where
  "finish_listener env c w =
     (let (now, w1) = date_now env w;
          duration = now - c_start c;
          (t, w2) = date_now env w1
      in console_log (completed2 c (statusCode (res w2)) duration t) w2)"

definition middleware2 :: "env \<Rightarrow> request \<Rightarrow> world \<Rightarrow> world" where
  "middleware2 env req w =
     (let (start, w1) = date_now env w;
          (requestId, w2) = requestId_of env req w1;
          (t, w3) = date_now env w2;
          w4 = console_log (started2 req requestId t) w3;
          c = \<lparr>c_req = req, c_start = start, c_requestId = requestId\<rparr>
      in w4\<lparr>res := (res w4)\<lparr>finish_listeners := finish_listeners (res w4) @ [c]\<rparr>\<rparr>)"

text \<open>
  The HTTP library emits \<^verbatim>\<open>'finish'\<close> once, when a finalised response has been
  handed over for transmission, and then runs the registered listeners in order. When
  the client closed the connection before the answer, nothing is handed over and
  \<^verbatim>\<open>'finish'\<close> is not emitted.
\<close>

definition emit_finish :: "env \<Rightarrow> world \<Rightarrow> world" where
  "emit_finish env w =
     (if ended (res w) \<noteq> None \<and> client_open env
      then fold (finish_listener env) (finish_listeners (res w)) w
      else w)"

section \<open>The framework's final handler\<close>

text \<open>
  When no route matches, the framework answers 404. When a handler throws, it answers
  with the response's status code if that is an error code and with 500 otherwise,
  unless the response is already finalised, in which case it only drops the
  connection. Either answer goes through \<^verbatim>\<open>res.end(body, 'utf8')\<close>.
\<close>

definition not_found :: "env \<Rightarrow> request \<Rightarrow> world \<Rightarrow> world" where
  "not_found env req w =
     res_end env (Some (final_page env 404 req)) (Some ''utf8'') (res_status 404 w)"

definition error_status :: "nat \<Rightarrow> nat" where
  "error_status sc = (if 400 \<le> sc \<and> sc \<le> 599 then sc else 500)"

definition on_error :: "env \<Rightarrow> request \<Rightarrow> world \<Rightarrow> world" where
  "on_error env req w =
     (if ended (res w) \<noteq> None then w
      else let st = error_status (statusCode (res w))
           in res_end env (Some (final_page env st req)) (Some ''utf8'') (res_status st w))"

text \<open>
  A downstream handler in general, as the sequence of what it does to the response:
  it assigns a status code, calls \<^verbatim>\<open>res.end\<close>, or throws, which ends it and brings
  in the final handler.
\<close>

datatype handler_op =
    Status nat
  | End "string option" "string option"
  | Throw

fun run_ops :: "env \<Rightarrow> request \<Rightarrow> handler_op list \<Rightarrow> world \<Rightarrow> world" where
  "run_ops env req [] w = w"
| "run_ops env req (Status n # ops) w = run_ops env req ops (res_status n w)"
| "run_ops env req (End chunk encoding # ops) w =
     run_ops env req ops (res_end env chunk encoding w)"
| "run_ops env req (Throw # ops) w = on_error env req w"

text \<open>
  One request through a service: a fresh response object, the middleware, the
  handler, and the \<^verbatim>\<open>'finish'\<close> event.
\<close>

definition serve ::
  "(env \<Rightarrow> request \<Rightarrow> world \<Rightarrow> world) \<Rightarrow> env \<Rightarrow> (world \<Rightarrow> world) \<Rightarrow> request \<Rightarrow> world \<Rightarrow> world"
  where
  "serve middleware env handler req w =
     emit_finish env (handler (middleware env req (w\<lparr>res := new_response\<rparr>)))"

section \<open>The routes of api-service-1\<close>

text \<open>
  Each line a handler can print is a definition of its own, with the values that vary
  as arguments; the handlers follow.
\<close>

definition rocket :: string where
  "rocket = [CHR 0xF0, CHR 0x9F, CHR 0x9A, CHR 0x80]"

definition delays :: "nat list" where
  "delays = [100, 200, 500, 1000, 3000]"

text \<open>
  \<^verbatim>\<open>delays[Math.floor(Math.random() * delays.length)]\<close> (line 59).
\<close>

definition pick_delay :: "double01 \<Rightarrow> nat option" where
  "pick_delay r = js_index delays (math_floor (js_times r (length delays)))"

subsection \<open>\<^verbatim>\<open>/heavy-task\<close> (lines 57 to 98)\<close>

definition heavy_task_started :: "nat option \<Rightarrow> int \<Rightarrow> int \<Rightarrow> event" where
  "heavy_task_started delay requestId t =
     [(''level'', JString ''info''),
      (''message'',
         JString (''Starting heavy task with delay: '' @ template_number delay @ ''ms''))]
     @ opt_number ''delay'' delay
     @ [(''requestId'', JNumber (of_int requestId)),
        (''route'', JString ''/heavy-task''),
        (''service'', JString ''api-service-1''),
        (''timestamp'', JIso t)]"

definition heavy_task_failed :: "int \<Rightarrow> int \<Rightarrow> event" where
  "heavy_task_failed requestId t =
     [(''level'', JString ''error''),
      (''message'', JString ''Heavy task failed with internal server error''),
      (''requestId'', JNumber (of_int requestId)),
      (''endpoint'', JString ''/heavy-task''),
      (''status'', JNumber 500),
      (''service'', JString ''api-service-1''),
      (''timestamp'', JIso t)]"

definition heavy_task_completed :: "nat option \<Rightarrow> int \<Rightarrow> int \<Rightarrow> event" where
  "heavy_task_completed delay requestId t =
     [(''level'', JString ''info''),
      (''message'',
         JString (''Heavy task completed successfully in '' @ template_number delay @ ''ms'')),
      (''requestId'', JNumber (of_int requestId)),
      (''endpoint'', JString ''/heavy-task''),
      (''status'', JNumber 200)]
     @ opt_number ''duration'' delay
     @ [(''service'', JString ''api-service-1''),
        (''timestamp'', JIso t)]"

text \<open>
  The callback given to \<^verbatim>\<open>setTimeout\<close> runs once, after the delay; what it does
  follows what the handler did before.
\<close>

definition heavy_task :: "env \<Rightarrow> world \<Rightarrow> world" where
  "heavy_task env w =
     (let (r, w1) = math_random env w;
          delay = pick_delay r;
          (requestId, w2) = date_now env w1;
          (t, w3) = date_now env w2;
          w4 = console_log (heavy_task_started delay requestId t) w3;
          (r2, w5) = math_random env w4;
          (t2, w6) = date_now env w5
      in if dval r2 < lit_0_2
         then res_json env (JObject [(''error'', JString ''Internal Server Error'')])
                (res_status 500 (console_log (heavy_task_failed requestId t2) w6))
         else res_json env
                (JObject [(''message'',
                     JString (''Completed in '' @ template_number delay @ ''ms''))])
                (console_log (heavy_task_completed delay requestId t2) w6))"

subsection \<open>\<^verbatim>\<open>/test-service-2\<close> (lines 101 to 149)\<close>

text \<open>\<^verbatim>\<open>error.code || 'UNKNOWN'\<close>.\<close>

definition code_or_unknown :: "string option \<Rightarrow> string" where
  "code_or_unknown c =
     (case c of None \<Rightarrow> ''UNKNOWN'' | Some s \<Rightarrow> if s = [] then ''UNKNOWN'' else s)"

definition peer2_initiating :: "int \<Rightarrow> event" where
  "peer2_initiating t =
     [(''level'', JString ''info''),
      (''message'', JString ''Initiating call to API Service 2''),
      (''timestamp'', JIso t),
      (''service'', JString ''api-service-1'')]"

definition peer2_sending :: "int \<Rightarrow> event" where
  "peer2_sending t =
     [(''level'', JString ''debug''),
      (''message'', JString ''Sending request to API Service 2''),
      (''target'', JString ''api-service-2''),
      (''url'', JString ''http://api-service-2/''),
      (''service'', JString ''api-service-1''),
      (''timestamp'', JIso t)]"

definition peer2_received :: "rat \<Rightarrow> nat \<Rightarrow> nat \<Rightarrow> int \<Rightarrow> event" where
  "peer2_received duration status responseSize t =
     [(''level'', JString ''info''),
      (''message'', JString ''Successfully received response from API Service 2''),
      (''duration'', JNumber duration),
      (''status'', JNumber (of_nat status)),
      (''size'', JNumber (of_nat responseSize)),
      (''service'', JString ''api-service-1''),
      (''timestamp'', JIso t)]"

definition peer2_failed :: "string \<Rightarrow> string option \<Rightarrow> string option \<Rightarrow> int \<Rightarrow> event" where
  "peer2_failed message code stack t =
     [(''level'', JString ''error''),
      (''message'', JString ''Failed to call API Service 2''),
      (''error'', JString message),
      (''code'', JString (code_or_unknown code))]
     @ opt_string ''stack'' stack
     @ [(''service'', JString ''api-service-1''),
        (''timestamp'', JIso t)]"

text \<open>
  The call of the peer service is inside \<^verbatim>\<open>try\<close>; the histogram is observed on the
  path where the call succeeded, and the \<^verbatim>\<open>catch\<close> block answers 500.
\<close>

definition test_service_2 :: "env \<Rightarrow> world \<Rightarrow> world" where
  "test_service_2 env w =
     (let (timestamp, w1) = date_now env w;
          w2 = console_log (peer2_initiating timestamp) w1;
          (start, w3) = date_now env w2;
          (t, w4) = date_now env w3;
          w5 = console_log (peer2_sending t) w4
      in case peer env of
           PeerOk data status \<Rightarrow>
             (let (now, w6) = date_now env w5;
                  duration = seconds (now - start);
                  responseSize = length (stringify env data);
                  (t2, w7) = date_now env w6;
                  w8 = console_log (peer2_received duration status responseSize t2) w7;
                  w9 = observe (''GET'', ''/test-service-2'', ''200'') duration w8
              in res_json env
                   (JObject [(''message'', JString ''Called API Service 2''), (''data'', data)]) w9)
         | PeerFail message code stack \<Rightarrow>
             (let (t2, w6) = date_now env w5;
                  w7 = console_log (peer2_failed message code stack t2) w6
              in res_json env (JObject [(''error'', JString ''Failed to call API Service 2'')])
                   (res_status 500 w7)))"

subsection \<open>\<^verbatim>\<open>/metrics\<close> (lines 152 to 161), \<^verbatim>\<open>/info\<close> (lines 164 to 173) and \<^verbatim>\<open>/\<close> (lines 176 to 185)\<close>

definition metrics1_called :: "int \<Rightarrow> event" where
  "metrics1_called t =
     [(''level'', JString ''debug''),
      (''message'', JString ''Metrics endpoint called''),
      (''service'', JString ''api-service-1''),
      (''timestamp'', JIso t)]"

definition metrics1 :: "env \<Rightarrow> world \<Rightarrow> world" where
  "metrics1 env w =
     (let (t, w1) = date_now env w;
          w2 = console_log (metrics1_called t) w1;
          w3 = res_set ''Content-Type'' (contentType env) w2
      in res_end env (Some (metrics_text env (hist w3))) None w3)"

definition info_called :: "int \<Rightarrow> event" where
  "info_called t =
     [(''level'', JString ''info''),
      (''message'', JString ''Info endpoint called''),
      (''service'', JString ''API Service 1''),
      (''version'', JString ''1.0.0''),
      (''timestamp'', JIso t)]"

definition info :: "env \<Rightarrow> world \<Rightarrow> world" where
  "info env w =
     (let (t, w1) = date_now env w;
          w2 = console_log (info_called t) w1
      in res_json env
           (JObject [(''service'', JString ''API Service 1''), (''version'', JString ''1.0.0'')]) w2)"

definition health1_called :: "int \<Rightarrow> event" where
  "health1_called t =
     [(''level'', JString ''info''),
      (''message'', JString ''Health check endpoint called''),
      (''status'', JString ''healthy''),
      (''service'', JString ''api-service-1''),
      (''timestamp'', JIso t)]"

definition health1 :: "env \<Rightarrow> world \<Rightarrow> world" where
  "health1 env w =
     (let (t, w1) = date_now env w;
          w2 = console_log (health1_called t) w1
      in res_send env (''API Service 1 is running '' @ rocket) w2)"

subsection \<open>The application\<close>

text \<open>
  The route the framework's router resolves a request to; \<open>NoRoute1\<close> when none
  matches and the final handler answers.
\<close>

datatype route1 = HeavyTask | TestService2 | Metrics1 | Info | Health1 | NoRoute1

fun handler1 :: "env \<Rightarrow> route1 \<Rightarrow> request \<Rightarrow> world \<Rightarrow> world" where
  "handler1 env HeavyTask req = heavy_task env"
| "handler1 env TestService2 req = test_service_2 env"
| "handler1 env Metrics1 req = metrics1 env"
| "handler1 env Info req = info env"
| "handler1 env Health1 req = health1 env"
| "handler1 env NoRoute1 req = not_found env req"

definition app1 :: "env \<Rightarrow> route1 \<Rightarrow> request \<Rightarrow> world \<Rightarrow> world" where
  "app1 env rt req = serve middleware1 env (handler1 env rt req) req"

section \<open>The routes of api-service-2\<close>

subsection \<open>\<^verbatim>\<open>/compute\<close> (lines 54 to 80)\<close>

definition compute_started :: "int \<Rightarrow> event" where
  "compute_started t =
     [(''level'', JString ''info''),
      (''message'', JString ''Starting compute-heavy task''),
      (''route'', JString ''/compute''),
      (''service'', JString ''api-service-2''),
      (''timestamp'', JIso t)]"

definition compute_completed :: "int \<Rightarrow> rat \<Rightarrow> int \<Rightarrow> event" where
  "compute_completed duration result t =
     [(''level'', JString ''info''),
      (''message'', JString ''Compute-heavy task completed''),
      (''route'', JString ''/compute''),
      (''duration'', JNumber (of_int duration)),
      (''result'', JNumber result),
      (''service'', JString ''api-service-2''),
      (''timestamp'', JIso t)]"

text \<open>\<open>sqrt_sum env\<close> is the value the loop of line 66 leaves in \<^verbatim>\<open>sum\<close>.\<close>

definition compute :: "env \<Rightarrow> world \<Rightarrow> world" where
  "compute env w =
     (let (t, w1) = date_now env w;
          w2 = console_log (compute_started t) w1;
          (startTime, w3) = date_now env w2;
          sum = sqrt_sum env;
          (now, w4) = date_now env w3;
          duration = now - startTime;
          (t2, w5) = date_now env w4;
          w6 = console_log (compute_completed duration sum t2) w5
      in res_json env
           (JObject [(''message'', JString ''Computation completed''), (''result'', JNumber sum)]) w6)"

subsection \<open>\<^verbatim>\<open>/random-fail\<close> (lines 83 to 113)\<close>

definition random_fail_called :: "int \<Rightarrow> event" where
  "random_fail_called t =
     [(''level'', JString ''info''),
      (''message'', JString ''Random fail endpoint called''),
      (''route'', JString ''/random-fail''),
      (''service'', JString ''api-service-2''),
      (''timestamp'', JIso t)]"

definition random_fail_failed :: "int \<Rightarrow> event" where
  "random_fail_failed t =
     [(''level'', JString ''error''),
      (''message'', JString ''Random failure occurred''),
      (''route'', JString ''/random-fail''),
      (''statusCode'', JNumber 500),
      (''service'', JString ''api-service-2''),
      (''timestamp'', JIso t)]"

definition random_fail_succeeded :: "int \<Rightarrow> event" where
  "random_fail_succeeded t =
     [(''level'', JString ''info''),
      (''message'', JString ''Random fail endpoint succeeded''),
      (''route'', JString ''/random-fail''),
      (''statusCode'', JNumber 200),
      (''service'', JString ''api-service-2''),
      (''timestamp'', JIso t)]"

definition random_fail :: "env \<Rightarrow> world \<Rightarrow> world" where
  "random_fail env w =
     (let (t, w1) = date_now env w;
          w2 = console_log (random_fail_called t) w1;
          (r, w3) = math_random env w2;
          (t2, w4) = date_now env w3
      in if dval r < lit_0_3
         then res_json env (JObject [(''error'', JString ''Random failure occurred'')])
                (res_status 500 (console_log (random_fail_failed t2) w4))
         else res_json env (JObject [(''message'', JString ''Success'')])
                (console_log (random_fail_succeeded t2) w4))"

subsection \<open>\<^verbatim>\<open>/test-service-1\<close> (lines 116 to 164)\<close>

definition peer1_attempting :: "int \<Rightarrow> event" where
  "peer1_attempting t =
     [(''level'', JString ''info''),
      (''message'', JString ''Attempting to call API Service 1''),
      (''route'', JString ''/test-service-1''),
      (''service'', JString ''api-service-2''),
      (''timestamp'', JIso t)]"

definition peer1_sending :: "int \<Rightarrow> event" where
  "peer1_sending t =
     [(''level'', JString ''debug''),
      (''message'', JString ''Sending request to API Service 1''),
      (''targetUrl'', JString ''http://api-service-1/''),
      (''service'', JString ''api-service-2''),
      (''timestamp'', JIso t)]"

definition peer1_called :: "rat \<Rightarrow> string \<Rightarrow> int \<Rightarrow> event" where
  "peer1_called duration responseData t =
     [(''level'', JString ''info''),
      (''message'', JString ''Successfully called API Service 1''),
      (''route'', JString ''/test-service-1''),
      (''duration'', JNumber duration),
      (''responseData'', JString responseData),
      (''service'', JString ''api-service-2''),
      (''timestamp'', JIso t)]"

definition peer1_failed :: "string \<Rightarrow> string option \<Rightarrow> int \<Rightarrow> event" where
  "peer1_failed message stack t =
     [(''level'', JString ''error''),
      (''message'', JString ''Failed to call API Service 1''),
      (''route'', JString ''/test-service-1''),
      (''error'', JString message)]
     @ opt_string ''stack'' stack
     @ [(''service'', JString ''api-service-2''),
        (''timestamp'', JIso t)]"

definition test_service_1 :: "env \<Rightarrow> world \<Rightarrow> world" where
  "test_service_1 env w =
     (let (t0, w1) = date_now env w;
          w2 = console_log (peer1_attempting t0) w1;
          (start, w3) = date_now env w2;
          (t, w4) = date_now env w3;
          w5 = console_log (peer1_sending t) w4
      in case peer env of
           PeerOk data status \<Rightarrow>
             (let (now, w6) = date_now env w5;
                  duration = seconds (now - start);
                  w7 = observe (''GET'', ''/test-service-1'', ''200'') duration w6;
                  (t2, w8) = date_now env w7;
                  w9 = console_log (peer1_called duration (stringify env data) t2) w8
              in res_json env
                   (JObject [(''message'', JString ''Called API Service 1''), (''data'', data)]) w9)
         | PeerFail message code stack \<Rightarrow>
             (let (t2, w6) = date_now env w5;
                  w7 = console_log (peer1_failed message stack t2) w6
              in res_json env (JObject [(''error'', JString ''Failed to call API Service 1'')])
                   (res_status 500 w7)))"

subsection \<open>\<^verbatim>\<open>/metrics\<close> (lines 167 to 177) and \<^verbatim>\<open>/\<close> (lines 180 to 190)\<close>

definition metrics2_called :: "int \<Rightarrow> event" where
  "metrics2_called t =
     [(''level'', JString ''info''),
      (''message'', JString ''Metrics endpoint called''),
      (''route'', JString ''/metrics''),
      (''service'', JString ''api-service-2''),
      (''timestamp'', JIso t)]"

definition metrics2 :: "env \<Rightarrow> world \<Rightarrow> world" where
  "metrics2 env w =
     (let (t, w1) = date_now env w;
          w2 = console_log (metrics2_called t) w1;
          w3 = res_set ''Content-Type'' (contentType env) w2
      in res_end env (Some (metrics_text env (hist w3))) None w3)"

definition health2_called :: "int \<Rightarrow> event" where
  "health2_called t =
     [(''level'', JString ''info''),
      (''message'', JString ''Health check performed''),
      (''route'', JString ''/''),
      (''status'', JString ''healthy''),
      (''service'', JString ''api-service-2''),
      (''timestamp'', JIso t)]"

definition health2 :: "env \<Rightarrow> world \<Rightarrow> world" where
  "health2 env w =
     (let (t, w1) = date_now env w;
          w2 = console_log (health2_called t) w1
      in res_send env (''API Service 2 is running '' @ rocket) w2)"

subsection \<open>The application\<close>

datatype route2 = Compute | RandomFail | TestService1 | Metrics2 | Health2 | NoRoute2

fun handler2 :: "env \<Rightarrow> route2 \<Rightarrow> request \<Rightarrow> world \<Rightarrow> world" where
  "handler2 env Compute req = compute env"
| "handler2 env RandomFail req = random_fail env"
| "handler2 env TestService1 req = test_service_1 env"
| "handler2 env Metrics2 req = metrics2 env"
| "handler2 env Health2 req = health2 env"
| "handler2 env NoRoute2 req = not_found env req"

definition app2 :: "env \<Rightarrow> route2 \<Rightarrow> request \<Rightarrow> world \<Rightarrow> world" where
  "app2 env rt req = serve middleware2 env (handler2 env rt req) req"

section \<open>Observing a run\<close>

text \<open>The lines printed between two states of the process.\<close>

definition printed :: "world \<Rightarrow> world \<Rightarrow> event list" where
  "printed w w' = drop (length (stdout w)) (stdout w')"

definition message_of :: "event \<Rightarrow> string" where
  "message_of e = (case map_of e ''message'' of Some (JString m) \<Rightarrow> m | _ \<Rightarrow> [])"

text \<open>
  The two lines of the middleware are told from all others by their messages:
  \<^verbatim>\<open>Request started: ...\<close> and \<^verbatim>\<open>Request completed: ...\<close>.
\<close>

definition is_started :: "event \<Rightarrow> bool" where
  "is_started e = (take 17 (message_of e) = ''Request started: '')"

definition is_completed :: "event \<Rightarrow> bool" where
  "is_completed e = (take 19 (message_of e) = ''Request completed: '')"

definition quiet :: "event \<Rightarrow> bool" where
  "quiet e = (\<not> is_started e \<and> \<not> is_completed e)"

definition timestamp_of :: "event \<Rightarrow> int option" where
  "timestamp_of e = (case map_of e ''timestamp'' of Some (JIso t) \<Rightarrow> Some t | _ \<Rightarrow> None)"

text \<open>Fields of a line, and whether the first line is stamped no later than the last.\<close>

definition timestamps_ordered :: "event list \<Rightarrow> bool" where
  "timestamps_ordered evs =
     (case (timestamp_of (hd evs), timestamp_of (last evs)) of
        (Some a, Some b) \<Rightarrow> a \<le> b
      | _ \<Rightarrow> False)"

definition status_of :: "event \<Rightarrow> rat option" where
  "status_of e = (case map_of e ''statusCode'' of Some (JNumber n) \<Rightarrow> Some n | _ \<Rightarrow> None)"

definition duration_of :: "event \<Rightarrow> rat option" where
  "duration_of e = (case map_of e ''duration'' of Some (JNumber n) \<Rightarrow> Some n | _ \<Rightarrow> None)"

definition requestId_in :: "event \<Rightarrow> string option" where
  "requestId_in e = (case map_of e ''requestId'' of Some (JString s) \<Rightarrow> Some s | _ \<Rightarrow> None)"

text \<open>
  Exactly one start line and exactly one completion line, the start line first and the
  completion line last.
\<close>

definition one_start_one_completion :: "event list \<Rightarrow> bool" where
  "one_start_one_completion evs =
     (length (filter is_started evs) = 1 \<and> length (filter is_completed evs) = 1 \<and>
      evs \<noteq> [] \<and> is_started (hd evs) \<and> is_completed (last evs))"

text \<open>
  \<open>service1_lines env req w W\<close>: from \<open>w\<close> to \<open>W\<close> api-service-1 has printed, for the
  request \<open>req\<close>, exactly one start line and one completion line, the start line first
  and the completion line last; the start line is the one of the middleware, with the
  identifier selected for the request and the second clock reading; the completion line
  is the one of the hook, with that identifier, the status code of the response as it
  goes out, the duration from the first reading of the request to the last but one,
  and the last reading as its timestamp. \<open>service2_lines\<close> is the same for
  api-service-2. \<open>service2_start_only\<close>: api-service-2 has printed its start line, first,
  and no completion line.
\<close>

definition service1_lines :: "env \<Rightarrow> request \<Rightarrow> world \<Rightarrow> world \<Rightarrow> bool" where
  "service1_lines env req w W =
     (one_start_one_completion (printed w W) \<and>
      hd (printed w W) =
        started1 req (fst (requestId_of env req w)) (clk env (Suc (ticks w))) \<and>
      last (printed w W) =
        completed1
          \<lparr>c_req = req, c_start = clk env (ticks w),
             c_requestId = fst (requestId_of env req w)\<rparr>
          (statusCode (res W)) (clk env (ticks W - 2) - clk env (ticks w))
          (clk env (ticks W - 1)) \<and>
      status_of (last (printed w W)) = Some (of_nat (statusCode (res W))) \<and>
      ended (res W) \<noteq> None)"

definition service2_lines :: "env \<Rightarrow> request \<Rightarrow> world \<Rightarrow> world \<Rightarrow> bool" where
  "service2_lines env req w W =
     (one_start_one_completion (printed w W) \<and>
      hd (printed w W) =
        started2 req (fst (requestId_of env req w)) (clk env (Suc (ticks w))) \<and>
      last (printed w W) =
        completed2
          \<lparr>c_req = req, c_start = clk env (ticks w),
             c_requestId = fst (requestId_of env req w)\<rparr>
          (statusCode (res W)) (clk env (ticks W - 2) - clk env (ticks w))
          (clk env (ticks W - 1)) \<and>
      status_of (last (printed w W)) = Some (of_nat (statusCode (res W))) \<and>
      ended (res W) \<noteq> None)"

definition service2_start_only :: "env \<Rightarrow> request \<Rightarrow> world \<Rightarrow> world \<Rightarrow> bool" where
  "service2_start_only env req w W =
     (length (filter is_started (printed w W)) = 1 \<and>
      filter is_completed (printed w W) = [] \<and>
      printed w W \<noteq> [] \<and>
      hd (printed w W) =
        started2 req (fst (requestId_of env req w)) (clk env (Suc (ticks w))) \<and>
      ended (res W) \<noteq> None)"

text \<open>An event without the fields of the given names.\<close>

definition without :: "string list \<Rightarrow> event \<Rightarrow> event" where
  "without ks e = filter (\<lambda>kv. fst kv \<notin> set ks) e"

text \<open>What goes out: the status code and the arguments of the finalising call.\<close>

definition sent :: "world \<Rightarrow> nat \<times> (string option \<times> string option) option" where
  "sent w = (statusCode (res w), ended (res w))"

text \<open>
  The arguments of the finalising call after one more call of \<^verbatim>\<open>res.end\<close>: those of
  the earlier call if there was one.
\<close>

definition first_end ::
  "world \<Rightarrow> string option \<times> string option \<Rightarrow> (string option \<times> string option) option" where
  "first_end w call = (if ended (res w) = None then Some call else ended (res w))"

text \<open>A service without the logging middleware, to compare with.\<close>

definition bare :: "env \<Rightarrow> request \<Rightarrow> world \<Rightarrow> world" where
  "bare env req w = w"

text \<open>
  The same state with the library's own \<^verbatim>\<open>end\<close> in place and no listener
  registered: the response object as a handler would find it without the middleware.
\<close>

definition unhooked :: "world \<Rightarrow> world" where
  "unhooked w = w\<lparr>res := (res w)\<lparr>end_method := NativeEnd, finish_listeners := []\<rparr>\<rparr>"

text \<open>
  \<open>prelude w w'\<close>: from \<open>w\<close> to \<open>w'\<close> a handler has only read the clock and printed
  lines of its own, and has left the hooks and the finalisation of the response alone.
  \<open>ends_last env h\<close>: on an unfinished response, the handler \<open>h\<close> does that and then
  calls \<^verbatim>\<open>res.end\<close> as its last action.
\<close>

definition prelude :: "world \<Rightarrow> world \<Rightarrow> bool" where
  "prelude w w' =
     (end_method (res w') = end_method (res w) \<and> ended (res w') = ended (res w) \<and>
      finish_listeners (res w') = finish_listeners (res w) \<and>
      ticks w \<le> ticks w' \<and>
      (\<exists>evs. stdout w' = stdout w @ evs \<and> list_all quiet evs))"

definition ends_last :: "env \<Rightarrow> (world \<Rightarrow> world) \<Rightarrow> bool" where
  "ends_last env h =
     (\<forall>w. ended (res w) = None \<longrightarrow>
        (\<exists>chunk encoding w'. h w = res_end env chunk encoding w' \<and> prelude w w'))"

text \<open>
  A handler given by its operations answers once, as its last action, when its first
  call of \<^verbatim>\<open>res.end\<close> is its last operation, or when it throws before any such call.
  \<open>script_result\<close> is then the finalising call and the status code at that moment.
\<close>

fun responds_last :: "handler_op list \<Rightarrow> bool" where
  "responds_last [] = False"
| "responds_last (Status n # ops) = responds_last ops"
| "responds_last (End chunk encoding # ops) = (ops = [])"
| "responds_last (Throw # ops) = True"

fun script_result ::
  "env \<Rightarrow> request \<Rightarrow> handler_op list \<Rightarrow> nat \<Rightarrow> string option \<times> string option \<times> nat" where
  "script_result env req [] sc = (None, None, sc)"
| "script_result env req (Status n # ops) sc = script_result env req ops n"
| "script_result env req (End chunk encoding # ops) sc = (chunk, encoding, sc)"
| "script_result env req (Throw # ops) sc =
     (Some (final_page env (error_status sc) req), Some ''utf8'', error_status sc)"

subsection \<open>Concrete inputs\<close>

definition example_request :: request where
  "example_request =
     \<lparr>req_method = ''GET'', url = ''/'', ip = Some ''10.0.0.7'',
      headers = [''x-request-id'' \<mapsto> ''abc123'', ''user-agent'' \<mapsto> ''curl/8.0'']\<rparr>"

definition anonymous_request :: request where
  "anonymous_request =
     \<lparr>req_method = ''GET'', url = ''/'', ip = Some ''10.0.0.7'',
      headers = [''user-agent'' \<mapsto> ''curl/8.0'']\<rparr>"

text \<open>
  A clock that advances by ten milliseconds per reading, a random source that always
  yields 0.5 (printed \<^verbatim>\<open>0.i\<close> in radix 36), a peer that answers, and a client that
  stays connected.
\<close>

definition example_env :: env where
  "example_env =
     \<lparr>clk = (\<lambda>n. 1700000000000 + 10 * int n),
      rnd = (\<lambda>n. \<lparr>mant = 2 ^ 52, expo = 53\<rparr>),
      digits36 = (\<lambda>d. ''i''),
      stringify = (\<lambda>j. ''{}''),
      peer = PeerOk (JString ''API Service 2 is running'') 200,
      sqrt_sum = 0,
      metrics_text = (\<lambda>h. []),
      contentType = ''text/plain'',
      final_page = (\<lambda>n r. ''Not Found''),
      client_open = True\<rparr>"

text \<open>The same, with a random source that yields zero.\<close>

definition zero_env :: env where
  "zero_env = example_env\<lparr>rnd := (\<lambda>n. \<lparr>mant = 0, expo = 53\<rparr>)\<rparr>"

text \<open>The same, with a wall clock that is set back by a second after two readings.\<close>

definition set_back_env :: env where
  "set_back_env =
     example_env\<lparr>clk := (\<lambda>n. if n < 2 then 1700000000000 + 10 * int n
                               else 1699999999000 + 10 * int n)\<rparr>"

text \<open>The same, with a client that closes its connection before the answer.\<close>

definition closed_env :: env where
  "closed_env = example_env\<lparr>client_open := False\<rparr>"

definition example_world :: world where
  "example_world = \<lparr>ticks = 0, draws = 0, stdout = [], hist = [], res = new_response\<rparr>"

section \<open>Rounding of the product\<close>

lemma round_even_upper:
  "2 * (round_even n s * 2 ^ s) \<le> 2 * n + 2 ^ s"
proof -
  define q where "q = n div 2 ^ s"
  define r where "r = n mod 2 ^ s"
  define R where "R = round_even n s"
  define p :: nat where "p = 2 ^ s"
  have n: "n = q * p + r" unfolding q_def r_def p_def by (rule div_mult_mod_eq [symmetric])
  have R: "R \<le> (if 2 * r < p then q else q + 1)"
    by (simp add: R_def round_even_def Let_def q_def r_def p_def)
  have "2 * (R * p) \<le> 2 * n + p"
  proof (cases "2 * r < p")
    case True
    with R have "R \<le> q" by simp
    then have "R * p \<le> q * p" by (rule mult_le_mono1)
    then have "2 * (R * p) \<le> 2 * (q * p)" by simp
    also have "\<dots> \<le> 2 * (q * p + r) + p" by simp
    finally show ?thesis by (simp only: n)
  next
    case False
    with R have "R \<le> q + 1" by simp
    then have "R * p \<le> (q + 1) * p" by (rule mult_le_mono1)
    then have "2 * (R * p) \<le> 2 * (q * p) + 2 * p" by (simp add: algebra_simps)
    also have "\<dots> \<le> 2 * (q * p) + (2 * r + p)" using False by simp
    finally show ?thesis by (simp add: n algebra_simps)
  qed
  then show ?thesis by (simp only: R_def p_def)
qed

lemma round_even_zero_shift: "round_even n 0 = n"
  by (simp add: round_even_def)

lemma js_times_numerator:
  assumes m: "m < 2 ^ 53" and k: "0 < k"
  shows "round_even (m * k) (floorlog 2 (m * k) - 53) * 2 ^ (floorlog 2 (m * k) - 53) < k * 2 ^ 53"
proof (cases "floorlog 2 (m * k) \<le> 53")
  case True
  then have "floorlog 2 (m * k) - 53 = 0" by simp
  then show ?thesis using m k by (simp add: round_even_zero_shift)
next
  case False
  define s where "s = floorlog 2 (m * k) - 53"
  from False have fl: "floorlog 2 (m * k) = 53 + s" and s: "0 < s" by (simp_all add: s_def)
  have pos: "0 < m * k" using False by (cases "m * k = 0") (simp_all add: floorlog_def)
  from floorlog_bounds [OF pos, of 2] fl have lo: "(2::nat) ^ (52 + s) \<le> m * k" by simp
  have "m * k \<le> (2 ^ 53 - 1) * k" using m by (intro mult_le_mono1) simp
  also have "\<dots> = 2 ^ 53 * k - k" by (simp add: algebra_simps)
  finally have hi: "m * k + k \<le> 2 ^ 53 * k" using k by simp
  have "(2::nat) ^ 53 * 2 ^ s = 2 * 2 ^ (52 + s)" by (simp add: power_add)
  also have "\<dots> \<le> 2 * (m * k)" using lo by simp
  also have "\<dots> < 2 * (2 ^ 53 * k)" using hi k by simp
  finally have "(2::nat) ^ 53 * 2 ^ s < 2 ^ 53 * (2 * k)" by (simp add: algebra_simps)
  then have sk: "(2::nat) ^ s < 2 * k" by simp
  have "2 * (round_even (m * k) s * 2 ^ s) \<le> 2 * (m * k) + 2 ^ s" by (rule round_even_upper)
  also have "\<dots> < 2 * (m * k) + 2 * k" using sk by simp
  also have "\<dots> \<le> 2 * (2 ^ 53 * k)" using hi by simp
  finally show ?thesis by (simp add: s_def algebra_simps)
qed

lemma js_times_less:
  assumes d: "is_double01 d" and k: "0 < k"
  shows "js_times d k < of_nat k"
proof -
  from d have m: "mant d < 2 ^ 53" and e: "53 \<le> expo d" by (simp_all add: is_double01_def)
  define R where "R = round_even (mant d * k) (floorlog 2 (mant d * k) - 53) * 2 ^ (floorlog 2 (mant d * k) - 53)"
  have "R < k * 2 ^ 53" unfolding R_def by (rule js_times_numerator [OF m k])
  also have "\<dots> \<le> k * 2 ^ expo d" using e by (intro mult_le_mono2 power_increasing) simp_all
  finally have "R < k * 2 ^ expo d" .
  then have "(of_nat R :: rat) < of_nat (k * 2 ^ expo d)" by (simp only: of_nat_less_iff)
  then have "(of_nat R :: rat) < of_nat k * 2 ^ expo d" by simp
  then have "(of_nat R :: rat) / 2 ^ expo d < of_nat k" by (simp add: divide_less_eq)
  then show ?thesis by (simp add: js_times_def Let_def R_def)
qed

lemma js_times_nonneg: "0 \<le> js_times d k"
  by (simp add: js_times_def Let_def)

lemma pick_delay_index:
  assumes "is_double01 r"
  shows "0 \<le> math_floor (js_times r (length delays)) \<and> math_floor (js_times r (length delays)) < int (length delays)"
proof -
  have "js_times r (length delays) < of_nat (length delays)"
    by (rule js_times_less [OF assms]) (simp add: delays_def)
  then have "js_times r (length delays) < of_int (int (length delays))" by simp
  then have "\<lfloor>js_times r (length delays)\<rfloor> < int (length delays)" by (simp only: floor_less_iff)
  moreover have "0 \<le> \<lfloor>js_times r (length delays)\<rfloor>" using js_times_nonneg [of r "length delays"] by simp
  ultimately show ?thesis by (simp add: math_floor_def)
qed


section \<open>The anatomy of a request\<close>

lemma res_end_logging:
  assumes "end_method (res w) = LoggingEnd c NativeEnd"
  shows "res_end env chunk enc w =
     w\<lparr>ticks := Suc (Suc (ticks w)),
       stdout := stdout w @ [completed1 c (statusCode (res w)) (clk env (ticks w) - c_start c) (clk env (Suc (ticks w)))],
       res := (res w)\<lparr>ended := (if ended (res w) = None then Some (chunk, enc) else ended (res w))\<rparr>\<rparr>"
  using assms
  by (simp add: res_end_def end_override_def native_end_def date_now_def console_log_def Let_def)

lemma res_end_native:
  assumes "end_method (res w) = NativeEnd"
  shows "res_end env chunk enc w =
     w\<lparr>res := (res w)\<lparr>ended := (if ended (res w) = None then Some (chunk, enc) else ended (res w))\<rparr>\<rparr>"
  using assms
  by (simp add: res_end_def native_end_def)

lemma quiet_simps:
  "quiet ((''level'', l) # (''message'', JString m) # rest) = (take 17 m \<noteq> ''Request started: '' \<and> take 19 m \<noteq> ''Request completed: '')"
  by (simp add: quiet_def is_started_def is_completed_def message_of_def)

lemma handler_lines_quiet [simp]:
  "quiet (heavy_task_started delay i t)" "quiet (heavy_task_failed i t)"
  "quiet (heavy_task_completed delay i t)"
  "quiet (peer2_initiating t)" "quiet (peer2_sending t)" "quiet (peer2_received d s n t)"
  "quiet (peer2_failed m c k t)"
  "quiet (metrics1_called t)" "quiet (info_called t)" "quiet (health1_called t)"
  "quiet (compute_started t)" "quiet (compute_completed dur v t)"
  "quiet (random_fail_called t)" "quiet (random_fail_failed t)" "quiet (random_fail_succeeded t)"
  "quiet (peer1_attempting t)" "quiet (peer1_sending t)" "quiet (peer1_called d txt t)"
  "quiet (peer1_failed m k t)"
  "quiet (metrics2_called t)" "quiet (health2_called t)"
  by (simp_all add: quiet_simps heavy_task_started_def heavy_task_failed_def
      heavy_task_completed_def peer2_initiating_def peer2_sending_def peer2_received_def
      peer2_failed_def metrics1_called_def info_called_def health1_called_def
      compute_started_def compute_completed_def random_fail_called_def random_fail_failed_def
      random_fail_succeeded_def peer1_attempting_def peer1_sending_def peer1_called_def
      peer1_failed_def metrics2_called_def health2_called_def)

lemma heavy_task_ends_last: "ends_last env (heavy_task env)"
  unfolding ends_last_def
  apply (intro allI impI)
  apply (simp add: heavy_task_def Let_def date_now_def math_random_def console_log_def res_json_def res_send_def res_status_def split_def)
  apply (intro conjI impI exI)
  apply (rule refl)
  apply (simp add: prelude_def quiet_simps)
  apply (rule refl)
  apply (simp add: prelude_def quiet_simps)
  done


lemma requestId_of_fst:
  "draws w' = draws w \<Longrightarrow> fst (requestId_of env req w') = fst (requestId_of env req w)"
  by (simp add: requestId_of_def generated_id_def math_random_def Let_def split: option.splits)

lemma requestId_of_res:
  "draws (snd (requestId_of env req (w\<lparr>res := r\<rparr>))) = draws (snd (requestId_of env req w))"
  "fst (requestId_of env req (w\<lparr>res := r\<rparr>)) = fst (requestId_of env req w)"
  by (simp_all add: requestId_of_def generated_id_def math_random_def split: option.splits)

lemma middleware1_effect:
  "middleware1 env req w =
     w\<lparr>ticks := Suc (Suc (ticks w)),
       draws := draws (snd (requestId_of env req w)),
       stdout := stdout w @ [started1 req (fst (requestId_of env req w)) (clk env (Suc (ticks w)))],
       res := (res w)\<lparr>end_method :=
          LoggingEnd \<lparr>c_req = req, c_start = clk env (ticks w), c_requestId = fst (requestId_of env req w)\<rparr>
            (end_method (res w))\<rparr>\<rparr>"
  by (simp add: middleware1_def requestId_of_def generated_id_def math_random_def date_now_def
      console_log_def Let_def split: option.splits)

lemma middleware2_effect:
  "middleware2 env req w =
     w\<lparr>ticks := Suc (Suc (ticks w)),
       draws := draws (snd (requestId_of env req w)),
       stdout := stdout w @ [started2 req (fst (requestId_of env req w)) (clk env (Suc (ticks w)))],
       res := (res w)\<lparr>finish_listeners := finish_listeners (res w) @
          [\<lparr>c_req = req, c_start = clk env (ticks w), c_requestId = fst (requestId_of env req w)\<rparr>]\<rparr>\<rparr>"
  by (simp add: middleware2_def requestId_of_def generated_id_def math_random_def date_now_def
      console_log_def Let_def split: option.splits)

lemma serve1_anatomy:
  assumes h: "ends_last env h"
    and W_def: "W = serve middleware1 env h req w"
    and c_def: "c = \<lparr>c_req = req, c_start = clk env (ticks w), c_requestId = fst (requestId_of env req w)\<rparr>"
  shows "\<exists>evs. list_all quiet evs \<and>
     stdout W = stdout w @ started1 req (c_requestId c) (clk env (Suc (ticks w))) # evs @
        [completed1 c (statusCode (res W)) (clk env (ticks W - 2) - clk env (ticks w)) (clk env (ticks W - 1))] \<and>
     ticks w + 4 \<le> ticks W \<and> ended (res W) \<noteq> None"
proof -
  define w0 where "w0 = w\<lparr>res := new_response\<rparr>"
  define m where "m = middleware1 env req w0"
  have id: "fst (requestId_of env req w0) = fst (requestId_of env req w)"
    by (rule requestId_of_fst) (simp add: w0_def)
  have m_end: "end_method (res m) = LoggingEnd c NativeEnd"
    by (simp add: m_def middleware1_effect id c_def) (simp add: w0_def new_response_def)
  have m_fresh: "ended (res m) = None" "finish_listeners (res m) = []"
    by (simp_all add: m_def middleware1_effect) (simp_all add: w0_def new_response_def)
  have m_out: "stdout m = stdout w @ [started1 req (c_requestId c) (clk env (Suc (ticks w)))]"
    by (simp add: m_def middleware1_effect id c_def) (simp add: w0_def)
  have m_ticks: "ticks m = ticks w + 2"
    by (simp add: m_def middleware1_effect) (simp add: w0_def)
  from h m_fresh(1) obtain chunk enc w' where hm: "h m = res_end env chunk enc w'" and p: "prelude m w'"
    unfolding ends_last_def by blast
  from p obtain evs where
    w'_end: "end_method (res w') = LoggingEnd c NativeEnd" and
    w'_fresh: "ended (res w') = None" "finish_listeners (res w') = []" and
    w'_ticks: "ticks m \<le> ticks w'" and
    w'_out: "stdout w' = stdout m @ evs" and q: "list_all quiet evs"
    unfolding prelude_def using m_end m_fresh by auto
  have W: "W = emit_finish env (res_end env chunk enc w')"
    by (simp add: W_def serve_def hm [unfolded m_def w0_def])
  have W': "W = w'\<lparr>ticks := Suc (Suc (ticks w')),
       stdout := stdout w' @ [completed1 c (statusCode (res w')) (clk env (ticks w') - c_start c) (clk env (Suc (ticks w')))],
       res := (res w')\<lparr>ended := Some (chunk, enc)\<rparr>\<rparr>"
    unfolding W by (simp add: res_end_logging [OF w'_end] w'_fresh emit_finish_def)
  have "stdout W = stdout w @ started1 req (c_requestId c) (clk env (Suc (ticks w))) # evs @
        [completed1 c (statusCode (res W)) (clk env (ticks W - 2) - clk env (ticks w)) (clk env (ticks W - 1))]"
    by (simp add: W' w'_out m_out) (simp add: c_def)
  moreover have "ticks w + 4 \<le> ticks W" using w'_ticks m_ticks by (simp add: W')
  moreover have "ended (res W) \<noteq> None" by (simp add: W')
  ultimately show ?thesis using q by blast
qed

lemma finish_listener_effect:
  "finish_listener env c w =
     w\<lparr>ticks := Suc (Suc (ticks w)),
       stdout := stdout w @ [completed2 c (statusCode (res w)) (clk env (ticks w) - c_start c) (clk env (Suc (ticks w)))]\<rparr>"
  by (simp add: finish_listener_def date_now_def console_log_def Let_def)

lemma serve2_anatomy:
  assumes h: "ends_last env h"
    and op: "client_open env"
    and W_def: "W = serve middleware2 env h req w"
    and c_def: "c = \<lparr>c_req = req, c_start = clk env (ticks w), c_requestId = fst (requestId_of env req w)\<rparr>"
  shows "\<exists>evs. list_all quiet evs \<and>
     stdout W = stdout w @ started2 req (c_requestId c) (clk env (Suc (ticks w))) # evs @
        [completed2 c (statusCode (res W)) (clk env (ticks W - 2) - clk env (ticks w)) (clk env (ticks W - 1))] \<and>
     ticks w + 4 \<le> ticks W \<and> ended (res W) \<noteq> None"
proof -
  define w0 where "w0 = w\<lparr>res := new_response\<rparr>"
  define m where "m = middleware2 env req w0"
  have id: "fst (requestId_of env req w0) = fst (requestId_of env req w)"
    by (rule requestId_of_fst) (simp add: w0_def)
  have m_end: "end_method (res m) = NativeEnd"
    by (simp add: m_def middleware2_effect) (simp add: w0_def new_response_def)
  have m_fresh: "ended (res m) = None" "finish_listeners (res m) = [c]"
    by (simp_all add: m_def middleware2_effect id c_def) (simp_all add: w0_def new_response_def)
  have m_out: "stdout m = stdout w @ [started2 req (c_requestId c) (clk env (Suc (ticks w)))]"
    by (simp add: m_def middleware2_effect id c_def) (simp add: w0_def)
  have m_ticks: "ticks m = ticks w + 2"
    by (simp add: m_def middleware2_effect) (simp add: w0_def)
  from h m_fresh(1) obtain chunk enc w' where hm: "h m = res_end env chunk enc w'" and p: "prelude m w'"
    unfolding ends_last_def by blast
  from p obtain evs where
    w'_end: "end_method (res w') = NativeEnd" and
    w'_fresh: "ended (res w') = None" "finish_listeners (res w') = [c]" and
    w'_ticks: "ticks m \<le> ticks w'" and
    w'_out: "stdout w' = stdout m @ evs" and q: "list_all quiet evs"
    unfolding prelude_def using m_end m_fresh by auto
  have W: "W = emit_finish env (res_end env chunk enc w')"
    by (simp add: W_def serve_def hm [unfolded m_def w0_def])
  have W': "W = w'\<lparr>ticks := Suc (Suc (ticks w')),
       stdout := stdout w' @ [completed2 c (statusCode (res w')) (clk env (ticks w') - c_start c) (clk env (Suc (ticks w')))],
       res := (res w')\<lparr>ended := Some (chunk, enc)\<rparr>\<rparr>"
    unfolding W by (simp add: res_end_native [OF w'_end] w'_fresh op emit_finish_def finish_listener_effect)
  have "stdout W = stdout w @ started2 req (c_requestId c) (clk env (Suc (ticks w))) # evs @
        [completed2 c (statusCode (res W)) (clk env (ticks W - 2) - clk env (ticks w)) (clk env (ticks W - 1))]"
    by (simp add: W' w'_out m_out) (simp add: c_def)
  moreover have "ticks w + 4 \<le> ticks W" using w'_ticks m_ticks by (simp add: W')
  moreover have "ended (res W) \<noteq> None" by (simp add: W')
  ultimately show ?thesis using q by blast
qed

lemma serve2_anatomy_closed:
  assumes h: "ends_last env h"
    and cl: "\<not> client_open env"
    and W_def: "W = serve middleware2 env h req w"
  shows "\<exists>evs. list_all quiet evs \<and>
     stdout W = stdout w @ started2 req (fst (requestId_of env req w)) (clk env (Suc (ticks w))) # evs \<and>
     ticks w + 2 \<le> ticks W \<and> ended (res W) \<noteq> None"
proof -
  define w0 where "w0 = w\<lparr>res := new_response\<rparr>"
  define m where "m = middleware2 env req w0"
  have id: "fst (requestId_of env req w0) = fst (requestId_of env req w)"
    by (rule requestId_of_fst) (simp add: w0_def)
  have m_end: "end_method (res m) = NativeEnd"
    by (simp add: m_def middleware2_effect) (simp add: w0_def new_response_def)
  have m_fresh: "ended (res m) = None"
    by (simp_all add: m_def middleware2_effect) (simp_all add: w0_def new_response_def)
  have m_out: "stdout m = stdout w @ [started2 req (fst (requestId_of env req w)) (clk env (Suc (ticks w)))]"
    by (simp add: m_def middleware2_effect id) (simp add: w0_def)
  have m_ticks: "ticks m = ticks w + 2"
    by (simp add: m_def middleware2_effect) (simp add: w0_def)
  from h m_fresh obtain chunk enc w' where hm: "h m = res_end env chunk enc w'" and p: "prelude m w'"
    unfolding ends_last_def by blast
  from p obtain evs where
    w'_end: "end_method (res w') = NativeEnd" and
    w'_fresh: "ended (res w') = None" and
    w'_ticks: "ticks m \<le> ticks w'" and
    w'_out: "stdout w' = stdout m @ evs" and q: "list_all quiet evs"
    unfolding prelude_def using m_end m_fresh by auto
  have W: "W = emit_finish env (res_end env chunk enc w')"
    by (simp add: W_def serve_def hm [unfolded m_def w0_def])
  have W': "W = w'\<lparr>res := (res w')\<lparr>ended := Some (chunk, enc)\<rparr>\<rparr>"
    unfolding W by (simp add: res_end_native [OF w'_end] w'_fresh cl emit_finish_def)
  have "stdout W = stdout w @ started2 req (fst (requestId_of env req w)) (clk env (Suc (ticks w))) # evs"
    by (simp add: W' w'_out m_out)
  moreover have "ticks w + 2 \<le> ticks W" using w'_ticks m_ticks by (simp add: W')
  moreover have "ended (res W) \<noteq> None" by (simp add: W')
  ultimately show ?thesis using q by blast
qed


lemma tick_shift:
  "n + 3 = Suc (Suc (Suc n))" "n + 5 = Suc (Suc (Suc (Suc (Suc n))))"
  "5 + n = Suc (Suc (Suc (Suc (Suc n))))"
  "n + 4 = Suc (Suc (Suc (Suc n)))" "n + 6 = Suc (Suc (Suc (Suc (Suc (Suc n)))))"
  "n + 7 = Suc (Suc (Suc (Suc (Suc (Suc (Suc n))))))"
  by simp_all

lemmas handler_defs =
  Let_def date_now_def math_random_def console_log_def res_json_def res_send_def
  res_status_def res_set_def observe_def split_def

lemma test_service_2_ends_last: "ends_last env (test_service_2 env)"
  unfolding ends_last_def
  apply (intro allI impI)
  apply (cases "peer env")
   apply (simp_all add: test_service_2_def handler_defs)
   apply (intro conjI impI exI, rule refl, simp add: prelude_def quiet_simps)+
  done

lemma metrics1_ends_last: "ends_last env (metrics1 env)"
  unfolding ends_last_def
  apply (intro allI impI)
  apply (simp add: metrics1_def handler_defs)
  apply (intro conjI impI exI, rule refl, simp add: prelude_def quiet_simps)
  done

lemma info_ends_last: "ends_last env (info env)"
  unfolding ends_last_def
  apply (intro allI impI)
  apply (simp add: info_def handler_defs)
  apply (intro conjI impI exI, rule refl, simp add: prelude_def quiet_simps)
  done

lemma health1_ends_last: "ends_last env (health1 env)"
  unfolding ends_last_def
  apply (intro allI impI)
  apply (simp add: health1_def handler_defs)
  apply (intro conjI impI exI, rule refl, simp add: prelude_def quiet_simps)
  done

lemma not_found_ends_last: "ends_last env (not_found env req)"
  unfolding ends_last_def
  apply (intro allI impI)
  apply (simp add: not_found_def handler_defs)
  apply (intro conjI impI exI, rule refl, simp add: prelude_def quiet_simps)
  done

lemma handler1_ends_last: "ends_last env (handler1 env rt req)"
  by (cases rt)
    (simp_all add: heavy_task_ends_last test_service_2_ends_last metrics1_ends_last
      info_ends_last health1_ends_last not_found_ends_last)

lemma compute_ends_last: "ends_last env (compute env)"
  unfolding ends_last_def
  apply (intro allI impI)
  apply (simp add: compute_def handler_defs)
  apply (intro conjI impI exI, rule refl, simp add: prelude_def quiet_simps)
  done

lemma random_fail_ends_last: "ends_last env (random_fail env)"
  unfolding ends_last_def
  apply (intro allI impI)
  apply (simp add: random_fail_def handler_defs)
  apply (intro conjI impI exI)
     apply (rule refl, simp add: prelude_def quiet_simps)+
  done

lemma test_service_1_ends_last: "ends_last env (test_service_1 env)"
  unfolding ends_last_def
  apply (intro allI impI)
  apply (cases "peer env")
   apply (simp_all add: test_service_1_def handler_defs)
   apply (intro conjI impI exI, rule refl, simp add: prelude_def quiet_simps)+
  done

lemma metrics2_ends_last: "ends_last env (metrics2 env)"
  unfolding ends_last_def
  apply (intro allI impI)
  apply (simp add: metrics2_def handler_defs)
  apply (intro conjI impI exI, rule refl, simp add: prelude_def quiet_simps)
  done

lemma health2_ends_last: "ends_last env (health2 env)"
  unfolding ends_last_def
  apply (intro allI impI)
  apply (simp add: health2_def handler_defs)
  apply (intro conjI impI exI, rule refl, simp add: prelude_def quiet_simps)
  done

lemma handler2_ends_last: "ends_last env (handler2 env rt req)"
  by (cases rt)
    (simp_all add: compute_ends_last random_fail_ends_last test_service_1_ends_last
      metrics2_ends_last health2_ends_last not_found_ends_last)


section \<open>Delay selection in /heavy-task\<close>

text \<open>
  The rounding is not idle: for the double nearest to 0.6 the exact product with 5 is
  below 3, the rounded product is 3, and the delay picked is the fourth.
\<close>

lemma floorlog_55: "floorlog 2 27021597764222975 = 55"
proof (rule antisym)
  show "floorlog 2 27021597764222975 \<le> 55"
    by (rule floorlog_leI) simp_all
  show "55 \<le> floorlog 2 27021597764222975"
    by (rule floorlog_geI) simp_all
qed

lemma product_rounds_up_to_three:
  "dval \<lparr>mant = 5404319552844595, expo = 53\<rparr> * 5 < 3 \<and>
   js_times \<lparr>mant = 5404319552844595, expo = 53\<rparr> 5 = 3 \<and>
   pick_delay \<lparr>mant = 5404319552844595, expo = 53\<rparr> = Some 1000"
proof -
  have t: "js_times \<lparr>mant = 5404319552844595, expo = 53\<rparr> 5 = 3"
    by (simp add: js_times_def floorlog_55 round_even_def Let_def)
  have len: "length delays = 5" by (simp add: delays_def)
  have "pick_delay \<lparr>mant = 5404319552844595, expo = 53\<rparr> = Some 1000"
    unfolding pick_delay_def len t by (simp add: math_floor_def js_index_def delays_def)
  moreover have "dval \<lparr>mant = 5404319552844595, expo = 53\<rparr> * 5 < 3"
    by (simp add: dval_def)
  ultimately show ?thesis using t by simp
qed

text \<open>
  C9. In the \<^verbatim>\<open>/heavy-task\<close> handler, for every value of the random source in
  \<open>[0, 1)\<close>, the index \<^verbatim>\<open>Math.floor(Math.random() * delays.length)\<close> is a valid
  index into \<^verbatim>\<open>delays\<close>: the selected delay is one of 100, 200, 500, 1000 and 3000
  milliseconds and never \<^verbatim>\<open>undefined\<close>. The draw is the one the handler takes
  first: the first of the request when the request carried an identifier, the second
  otherwise. The delay selected from it is the one the handler prints in its start
  line and in its line of success, and the one in the body it sends; the lines of the
  request and what goes out are listed in full.
\<close>

theorem heavy_task_delay_is_listed:
  assumes "is_double01 (rnd env (draws (snd (requestId_of env req w))))"
  shows "0 \<le> math_floor (js_times (rnd env (draws (snd (requestId_of env req w)))) (length delays)) \<and>
     math_floor (js_times (rnd env (draws (snd (requestId_of env req w)))) (length delays))
       < int (length delays) \<and>
     pick_delay (rnd env (draws (snd (requestId_of env req w)))) =
       Some (delays !
         nat (math_floor (js_times (rnd env (draws (snd (requestId_of env req w)))) (length delays)))) \<and>
     pick_delay (rnd env (draws (snd (requestId_of env req w))))
       \<in> {Some 100, Some 200, Some 500, Some 1000, Some 3000} \<and>
     template_number (pick_delay (rnd env (draws (snd (requestId_of env req w)))))
       \<in> {''100'', ''200'', ''500'', ''1000'', ''3000''} \<and>
     printed w (app1 env HeavyTask req w) =
       [started1 req (fst (requestId_of env req w)) (clk env (Suc (ticks w))),
        heavy_task_started (pick_delay (rnd env (draws (snd (requestId_of env req w)))))
          (clk env (ticks w + 2)) (clk env (ticks w + 3)),
        if dval (rnd env (Suc (draws (snd (requestId_of env req w))))) < lit_0_2
        then heavy_task_failed (clk env (ticks w + 2)) (clk env (ticks w + 4))
        else heavy_task_completed (pick_delay (rnd env (draws (snd (requestId_of env req w)))))
               (clk env (ticks w + 2)) (clk env (ticks w + 4)),
        completed1
          \<lparr>c_req = req, c_start = clk env (ticks w),
             c_requestId = fst (requestId_of env req w)\<rparr>
          (if dval (rnd env (Suc (draws (snd (requestId_of env req w))))) < lit_0_2
           then 500 else 200)
          (clk env (ticks w + 5) - clk env (ticks w)) (clk env (ticks w + 6))] \<and>
     sent (app1 env HeavyTask req w) =
       (if dval (rnd env (Suc (draws (snd (requestId_of env req w))))) < lit_0_2
        then (500, Some (Some (stringify env (JObject [(''error'', JString ''Internal Server Error'')])),
                         Some ''utf8''))
        else (200, Some (Some (stringify env (JObject [(''message'',
                 JString (''Completed in '' @
                   template_number (pick_delay (rnd env (draws (snd (requestId_of env req w))))) @
                   ''ms''))])),
                         Some ''utf8'')))"
proof -
  define r where "r = rnd env (draws (snd (requestId_of env req w)))"
  define r2 where "r2 = rnd env (Suc (draws (snd (requestId_of env req w))))"
  define i where "i = math_floor (js_times r (length delays))"
  define W where "W = app1 env HeavyTask req w"
  define c where "c = \<lparr>c_req = req, c_start = clk env (ticks w),
     c_requestId = fst (requestId_of env req w)\<rparr>"
  define outcome where "outcome =
     (if dval r2 < lit_0_2 then heavy_task_failed (clk env (ticks w + 2)) (clk env (ticks w + 4))
      else heavy_task_completed (pick_delay r) (clk env (ticks w + 2)) (clk env (ticks w + 4)))"
  from assms have d: "is_double01 r" by (simp add: r_def)
  from pick_delay_index [OF d] have range: "0 \<le> i" "i < 5"
    by (simp_all add: i_def delays_def)
  then have "nat i \<in> {0, 1, 2, 3, 4}" by auto
  then have listed: "delays ! nat i \<in> {100, 200, 500, 1000, 3000}"
    by (auto simp: delays_def)
  have pick: "pick_delay r = Some (delays ! nat i)"
    using range by (simp add: pick_delay_def js_index_def i_def [symmetric]) (simp add: delays_def)
  from listed have picked: "pick_delay r \<in> {Some 100, Some 200, Some 500, Some 1000, Some 3000}"
    unfolding pick by auto
  have digits: "digits10 100 = ''100''" "digits10 200 = ''200''" "digits10 500 = ''500''"
    "digits10 1000 = ''1000''" "digits10 3000 = ''3000''"
    by (simp_all add: digits10.simps)
  from listed have shown: "template_number (pick_delay r) \<in> {''100'', ''200'', ''500'', ''1000'', ''3000''}"
    unfolding pick template_number_def option.case using digits by auto
  have W: "W = w\<lparr>ticks := ticks w + 7, draws := Suc (Suc (draws (snd (requestId_of env req w)))),
       stdout := stdout w @
         [started1 req (fst (requestId_of env req w)) (clk env (Suc (ticks w))),
          heavy_task_started (pick_delay r) (clk env (ticks w + 2)) (clk env (ticks w + 3)),
          outcome,
          completed1 c (if dval r2 < lit_0_2 then 500 else 200)
            (clk env (ticks w + 5) - clk env (ticks w)) (clk env (ticks w + 6))],
       res := new_response\<lparr>
         statusCode := (if dval r2 < lit_0_2 then 500 else 200),
         ended := Some (Some (stringify env
                    (if dval r2 < lit_0_2
                     then JObject [(''error'', JString ''Internal Server Error'')]
                     else JObject [(''message'',
                            JString (''Completed in '' @ template_number (pick_delay r) @ ''ms''))])),
                    Some ''utf8''),
         end_method := LoggingEnd c NativeEnd\<rparr>\<rparr>"
    unfolding W_def r_def r2_def c_def outcome_def
    by (cases "dval (rnd env (Suc (draws (snd (requestId_of env req w))))) < lit_0_2")
      (simp_all add: app1_def serve_def middleware1_effect heavy_task_def handler_defs
        res_end_logging emit_finish_def new_response_def tick_shift requestId_of_res)
  have out: "sent W =
       (if dval r2 < lit_0_2
        then (500, Some (Some (stringify env (JObject [(''error'', JString ''Internal Server Error'')])),
                         Some ''utf8''))
        else (200, Some (Some (stringify env (JObject [(''message'',
                 JString (''Completed in '' @ template_number (pick_delay r) @ ''ms''))])),
                         Some ''utf8'')))"
    by (simp add: W sent_def new_response_def)
  have lines: "printed w W =
       [started1 req (fst (requestId_of env req w)) (clk env (Suc (ticks w))),
        heavy_task_started (pick_delay r) (clk env (ticks w + 2)) (clk env (ticks w + 3)),
        outcome,
        completed1 c (if dval r2 < lit_0_2 then 500 else 200)
          (clk env (ticks w + 5) - clk env (ticks w)) (clk env (ticks w + 6))]"
    by (simp add: W printed_def)
  from range pick picked shown lines out show ?thesis
    unfolding i_def W_def r_def r2_def c_def outcome_def delays_def by simp
qed

lemma floorlog_5_halves: "floorlog 2 22517998136852480 = 55"
proof (rule antisym)
  show "floorlog 2 22517998136852480 \<le> 55"
    by (rule floorlog_leI) simp_all
  show "55 \<le> floorlog 2 22517998136852480"
    by (rule floorlog_geI) simp_all
qed

theorem heavy_task_delay_is_listed_witness:
  "is_double01 (rnd example_env (draws (snd (requestId_of example_env example_request example_world)))) \<and>
   pick_delay (rnd example_env (draws (snd (requestId_of example_env example_request example_world)))) =
     Some 500 \<and>
   printed example_world (app1 example_env HeavyTask example_request example_world) =
     [started1 example_request ''abc123'' 1700000000010,
      heavy_task_started (Some 500) 1700000000020 1700000000030,
      heavy_task_completed (Some 500) 1700000000020 1700000000040,
      completed1
        \<lparr>c_req = example_request, c_start = 1700000000000, c_requestId = ''abc123''\<rparr>
        200 50 1700000000060] \<and>
   sent (app1 example_env HeavyTask example_request example_world) =
     (200, Some (Some (stringify example_env
        (JObject [(''message'', JString ''Completed in 500ms'')])), Some ''utf8''))"
proof -
  define r where "r = \<lparr>mant = 2 ^ 52, expo = 53\<rparr>"
  have dr: "rnd example_env n = r" for n
    by (simp add: example_env_def r_def)
  have d: "is_double01 (rnd example_env (draws (snd (requestId_of example_env example_request example_world))))"
    unfolding dr by (simp add: r_def is_double01_def)
  have t: "js_times r 5 = 5 / 2"
    by (simp add: r_def js_times_def floorlog_5_halves round_even_def Let_def)
  have len: "length delays = 5" by (simp add: delays_def)
  have i: "math_floor (js_times r (length delays)) = 2"
    unfolding len t math_floor_def by (rule floor_unique) simp_all
  have nth: "delays ! nat 2 = 500" by (simp add: delays_def)
  have fresh: "\<not> dval r < lit_0_2"
    by (simp add: r_def dval_def lit_0_2_def)
  have id: "fst (requestId_of example_env example_request example_world) = ''abc123''"
    by (simp add: requestId_of_def example_request_def)
  have clock: "clk example_env n = 1700000000000 + 10 * int n" "ticks example_world = 0" for n
    by (simp_all add: example_env_def example_world_def)
  note run = heavy_task_delay_is_listed [where env = example_env and req = example_request
      and w = example_world, OF d]
  from run have p: "pick_delay r = Some 500"
    unfolding dr i nth by blast
  have ms: "template_number (Some 500) = ''500''"
    by (simp add: template_number_def digits10.simps)
  from run have
    "printed example_world (app1 example_env HeavyTask example_request example_world) =
     [started1 example_request ''abc123'' 1700000000010,
      heavy_task_started (Some 500) 1700000000020 1700000000030,
      heavy_task_completed (Some 500) 1700000000020 1700000000040,
      completed1
        \<lparr>c_req = example_request, c_start = 1700000000000, c_requestId = ''abc123''\<rparr>
        200 50 1700000000060]"
    "sent (app1 example_env HeavyTask example_request example_world) =
     (200, Some (Some (stringify example_env
        (JObject [(''message'', JString ''Completed in 500ms'')])), Some ''utf8''))"
    unfolding dr p id by (simp_all add: fresh clock ms)
  with d p show ?thesis unfolding dr by simp
qed

section \<open>The correlation identifier\<close>

lemma generated_id_value:
  "generated_id env w =
     (substring 2 (toString36 env (rnd env (draws w))), w\<lparr>draws := Suc (draws w)\<rparr>)"
  by (simp add: generated_id_def math_random_def)

lemma generated_id_nonzero_draw:
  assumes "mant (rnd env (draws w)) \<noteq> 0" and "digits36 env (rnd env (draws w)) \<noteq> []"
  shows "fst (generated_id env w) \<noteq> []"
  using assms by (simp add: generated_id_value toString36_def substring_def)

text \<open>
  C7. The middleware selects the correlation identifier as follows: a present,
  non-empty \<^verbatim>\<open>X-Request-ID\<close> header is reused verbatim, without validation and without
  a draw from the random source; an absent or empty header makes it generate an
  identifier from one draw. Either way the start line carries the selected identifier.
  The selection has no failing branch.
\<close>

theorem request_id_selection:
  "(\<forall>h. headers req ''x-request-id'' = Some h \<and> h \<noteq> [] \<longrightarrow>
        requestId_of env req w = (h, w)) \<and>
   (headers req ''x-request-id'' = None \<or> headers req ''x-request-id'' = Some [] \<longrightarrow>
        requestId_of env req w =
          (substring 2 (toString36 env (rnd env (draws w))), w\<lparr>draws := Suc (draws w)\<rparr>)) \<and>
   stdout (middleware1 env req w) =
     stdout w @ [started1 req (fst (requestId_of env req w)) (clk env (Suc (ticks w)))] \<and>
   stdout (middleware2 env req w) =
     stdout w @ [started2 req (fst (requestId_of env req w)) (clk env (Suc (ticks w)))]"
proof (intro conjI allI impI)
  fix h
  assume "headers req ''x-request-id'' = Some h \<and> h \<noteq> []"
  then show "requestId_of env req w = (h, w)"
    by (simp add: requestId_of_def)
next
  assume "headers req ''x-request-id'' = None \<or> headers req ''x-request-id'' = Some []"
  then show "requestId_of env req w =
      (substring 2 (toString36 env (rnd env (draws w))), w\<lparr>draws := Suc (draws w)\<rparr>)"
  proof
    assume "headers req ''x-request-id'' = None"
    then show ?thesis by (simp add: requestId_of_def generated_id_value)
  next
    assume "headers req ''x-request-id'' = Some []"
    then show ?thesis by (simp add: requestId_of_def generated_id_value)
  qed
next
  show "stdout (middleware1 env req w) =
     stdout w @ [started1 req (fst (requestId_of env req w)) (clk env (Suc (ticks w)))]"
    by (simp add: middleware1_effect)
next
  show "stdout (middleware2 env req w) =
     stdout w @ [started2 req (fst (requestId_of env req w)) (clk env (Suc (ticks w)))]"
    by (simp add: middleware2_effect)
qed

theorem request_id_selection_witness:
  "headers example_request ''x-request-id'' = Some ''abc123'' \<and>
   requestId_of example_env example_request example_world = (''abc123'', example_world) \<and>
   headers anonymous_request ''x-request-id'' = None \<and>
   requestId_of example_env anonymous_request example_world =
     (''i'', example_world\<lparr>draws := Suc 0\<rparr>)"
proof -
  have a: "headers example_request ''x-request-id'' = Some ''abc123''"
    by (simp add: example_request_def)
  have b: "headers anonymous_request ''x-request-id'' = None"
    by (simp add: anonymous_request_def)
  from request_id_selection [of example_request example_env example_world] a
  have c: "requestId_of example_env example_request example_world = (''abc123'', example_world)"
    by simp
  from request_id_selection [of anonymous_request example_env example_world] b
  have d: "requestId_of example_env anonymous_request example_world =
     (''i'', example_world\<lparr>draws := Suc 0\<rparr>)"
    by (simp add: substring_def toString36_def example_env_def example_world_def)
  from a b c d show ?thesis by simp
qed

text \<open>
  C6. A request without \<^verbatim>\<open>X-Request-ID\<close> gets a generated identifier that is a
  non-empty string, whatever the random source yields. When the random source yields
  zero, \<^verbatim>\<open>(0).toString(36)\<close> is \<^verbatim>\<open>"0"\<close> and \<^verbatim>\<open>substring(2)\<close> of it is empty:
  both lines of the request carry the empty identifier.
\<close>

theorem generated_id_empty_at_zero:
  "headers anonymous_request ''x-request-id'' = None \<and>
   rnd zero_env 0 = \<lparr>mant = 0, expo = 53\<rparr> \<and>
   fst (requestId_of zero_env anonymous_request example_world) = [] \<and>
   map (\<lambda>e. map_of e ''requestId'')
     (printed example_world (app1 zero_env Health1 anonymous_request example_world)) =
     [Some (JString []), None, Some (JString [])]"
  by (simp add: anonymous_request_def zero_env_def example_env_def example_world_def
      requestId_of_def generated_id_value toString36_def substring_def
      app1_def serve_def middleware1_effect health1_def handler_defs
      res_end_logging emit_finish_def new_response_def printed_def
      started1_def completed1_def opt_string_def health1_called_def)

section \<open>Start and completion lines\<close>

lemma started1_kind [simp]: "is_started (started1 req i t)" "\<not> is_completed (started1 req i t)"
  by (simp_all add: is_started_def is_completed_def message_of_def started1_def)

lemma started2_kind [simp]: "is_started (started2 req i t)" "\<not> is_completed (started2 req i t)"
  by (simp_all add: is_started_def is_completed_def message_of_def started2_def)

lemma completed1_kind [simp]: "is_completed (completed1 c s d t)" "\<not> is_started (completed1 c s d t)"
  by (simp_all add: is_started_def is_completed_def message_of_def completed1_def)

lemma completed2_kind [simp]: "is_completed (completed2 c s d t)" "\<not> is_started (completed2 c s d t)"
  by (simp_all add: is_started_def is_completed_def message_of_def completed2_def)

lemma middleware_lines_loud [simp]:
  "\<not> quiet (started1 req i t)" "\<not> quiet (started2 req i t)"
  "\<not> quiet (completed1 c s d t)" "\<not> quiet (completed2 c s d t)"
  by (simp_all add: quiet_def)

lemma quiet_filter:
  assumes "list_all quiet evs"
  shows "filter is_started evs = []" "filter is_completed evs = []"
  using assms by (induction evs) (simp_all add: quiet_def)

lemma bracket_one_start_one_completion:
  assumes "list_all quiet evs" "is_started s" "\<not> is_completed s" "is_completed c" "\<not> is_started c"
  shows "one_start_one_completion (s # evs @ [c])"
  using assms by (simp add: one_start_one_completion_def quiet_filter)

lemma started_fields [simp]:
  "timestamp_of (started1 req i t) = Some t" "timestamp_of (started2 req i t) = Some t"
  "requestId_in (started1 req i t) = Some i" "requestId_in (started2 req i t) = Some i"
  by (simp_all add: timestamp_of_def requestId_in_def started1_def started2_def opt_string_def
      split: option.splits)

lemma completed1_fields [simp]:
  "timestamp_of (completed1 c s d t) = Some t"
  "requestId_in (completed1 c s d t) = Some (c_requestId c)"
  "status_of (completed1 c s d t) = Some (of_nat s)"
  "duration_of (completed1 c s d t) = Some (of_int d)"
  by (simp_all add: timestamp_of_def requestId_in_def status_of_def duration_of_def completed1_def)

lemma completed2_fields [simp]:
  "timestamp_of (completed2 c s d t) = Some t"
  "requestId_in (completed2 c s d t) = None"
  "map_of (completed2 c s d t) ''requestId'' = None"
  "status_of (completed2 c s d t) = Some (of_nat s)"
  "duration_of (completed2 c s d t) = Some (of_int d)"
  by (simp_all add: timestamp_of_def requestId_in_def status_of_def duration_of_def completed2_def)

text \<open>Anatomy of a request through either service, in terms of the printed lines.\<close>

lemma serve1_printed:
  assumes "ends_last env h"
  shows "\<exists>evs. list_all quiet evs \<and>
     printed w (serve middleware1 env h req w) =
       started1 req (fst (requestId_of env req w)) (clk env (Suc (ticks w))) # evs @
        [completed1 \<lparr>c_req = req, c_start = clk env (ticks w), c_requestId = fst (requestId_of env req w)\<rparr>
           (statusCode (res (serve middleware1 env h req w)))
           (clk env (ticks (serve middleware1 env h req w) - 2) - clk env (ticks w))
           (clk env (ticks (serve middleware1 env h req w) - 1))] \<and>
     ticks w + 4 \<le> ticks (serve middleware1 env h req w) \<and>
     ended (res (serve middleware1 env h req w)) \<noteq> None"
  using serve1_anatomy [OF assms refl refl, of req w] by (auto simp: printed_def)

lemma serve2_printed:
  assumes "ends_last env h" and "client_open env"
  shows "\<exists>evs. list_all quiet evs \<and>
     printed w (serve middleware2 env h req w) =
       started2 req (fst (requestId_of env req w)) (clk env (Suc (ticks w))) # evs @
        [completed2 \<lparr>c_req = req, c_start = clk env (ticks w), c_requestId = fst (requestId_of env req w)\<rparr>
           (statusCode (res (serve middleware2 env h req w)))
           (clk env (ticks (serve middleware2 env h req w) - 2) - clk env (ticks w))
           (clk env (ticks (serve middleware2 env h req w) - 1))] \<and>
     ticks w + 4 \<le> ticks (serve middleware2 env h req w) \<and>
     ended (res (serve middleware2 env h req w)) \<noteq> None"
  using serve2_anatomy [OF assms refl refl, of req w] by (auto simp: printed_def)

lemma serve2_printed_closed:
  assumes "ends_last env h" and "\<not> client_open env"
  shows "\<exists>evs. list_all quiet evs \<and>
     printed w (serve middleware2 env h req w) =
       started2 req (fst (requestId_of env req w)) (clk env (Suc (ticks w))) # evs \<and>
     ended (res (serve middleware2 env h req w)) \<noteq> None"
  using serve2_anatomy_closed [OF assms refl, of req w] by (auto simp: printed_def)

lemma serve1_completion_duration:
  assumes "ends_last env h"
  shows "is_completed (last (printed w (serve middleware1 env h req w))) \<and>
     duration_of (last (printed w (serve middleware1 env h req w))) =
       Some (of_int (clk env (ticks (serve middleware1 env h req w) - 2) - clk env (ticks w))) \<and>
     ticks w < ticks (serve middleware1 env h req w) - 2"
  using serve1_printed [OF assms, of w req] by auto

lemma serve2_completion_duration:
  assumes "ends_last env h" and "client_open env"
  shows "is_completed (last (printed w (serve middleware2 env h req w))) \<and>
     duration_of (last (printed w (serve middleware2 env h req w))) =
       Some (of_int (clk env (ticks (serve middleware2 env h req w) - 2) - clk env (ticks w))) \<and>
     ticks w < ticks (serve middleware2 env h req w) - 2"
  using serve2_printed [OF assms, of w req] by auto

lemma serve2_closed_no_completion:
  assumes "ends_last env h" and "\<not> client_open env"
  shows "filter is_completed (printed w (serve middleware2 env h req w)) = []"
  using serve2_printed_closed [OF assms, of w req] by (auto simp: quiet_filter)


lemma res_status_same [simp]: "res_status (statusCode (res w)) w = w"
  by (simp add: res_status_def)

lemma res_status_twice [simp]: "res_status n (res_status k w) = res_status n w"
  by (simp add: res_status_def)

lemma res_status_fields [simp]:
  "ended (res (res_status n w)) = ended (res w)"
  "statusCode (res (res_status n w)) = n"
  "end_method (res (res_status n w)) = end_method (res w)"
  "finish_listeners (res (res_status n w)) = finish_listeners (res w)"
  "ticks (res_status n w) = ticks w"
  "stdout (res_status n w) = stdout w"
  "hist (res_status n w) = hist w"
  by (simp_all add: res_status_def)

lemma run_ops_responds_last:
  assumes "responds_last ops" and "ended (res w) = None"
  shows "run_ops env req ops w =
     (case script_result env req ops (statusCode (res w)) of
        (chunk, encoding, n) \<Rightarrow> res_end env chunk encoding (res_status n w))"
  using assms
proof (induction ops arbitrary: w)
  case Nil
  then show ?case by simp
next
  case (Cons op ops)
  show ?case
  proof (cases op)
    case (Status n)
    with Cons.prems have "responds_last ops" by simp
    from Cons.IH [OF this, of "res_status n w"] Cons.prems(2) show ?thesis
      by (simp add: Status)
  next
    case (End chunk encoding)
    with Cons.prems show ?thesis by simp
  next
    case Throw
    with Cons.prems show ?thesis by (simp add: on_error_def Let_def)
  qed
qed

lemma run_ops_ends_last:
  assumes "responds_last ops"
  shows "ends_last env (run_ops env req ops)"
  unfolding ends_last_def
proof (intro allI impI)
  fix w :: world assume fresh: "ended (res w) = None"
  obtain chunk encoding n where r: "script_result env req ops (statusCode (res w)) = (chunk, encoding, n)"
    by (cases "script_result env req ops (statusCode (res w))") auto
  have "run_ops env req ops w = res_end env chunk encoding (res_status n w)"
    by (simp add: run_ops_responds_last [OF assms fresh] r)
  moreover have "prelude w (res_status n w)" by (simp add: prelude_def)
  ultimately show "\<exists>chunk encoding w'. run_ops env req ops w = res_end env chunk encoding w' \<and> prelude w w'"
    by blast
qed

text \<open>
  The status code a handler given by its operations goes out with is the one of
  \<open>script_result\<close>, under either middleware and whether or not the client is still there.
\<close>

lemma serve_script_status:
  assumes "responds_last ops"
  shows "statusCode (res (serve middleware1 env (run_ops env req ops) req w)) =
           snd (snd (script_result env req ops 200))"
    and "statusCode (res (serve middleware2 env (run_ops env req ops) req w)) =
           snd (snd (script_result env req ops 200))"
proof -
  obtain chunk encoding n where r: "script_result env req ops 200 = (chunk, encoding, n)"
    by (cases "script_result env req ops 200") auto
  define m1 where "m1 = middleware1 env req (w\<lparr>res := new_response\<rparr>)"
  define m2 where "m2 = middleware2 env req (w\<lparr>res := new_response\<rparr>)"
  have fresh: "ended (res m1) = None" "ended (res m2) = None"
    and st: "statusCode (res m1) = 200" "statusCode (res m2) = 200"
    by (simp_all add: m1_def m2_def middleware1_effect middleware2_effect new_response_def)
  have run1: "run_ops env req ops m1 = res_end env chunk encoding (res_status n m1)"
    by (simp add: run_ops_responds_last [OF assms fresh(1)] st r)
  have run2: "run_ops env req ops m2 = res_end env chunk encoding (res_status n m2)"
    by (simp add: run_ops_responds_last [OF assms fresh(2)] st r)
  show "statusCode (res (serve middleware1 env (run_ops env req ops) req w)) =
           snd (snd (script_result env req ops 200))"
    unfolding serve_def m1_def [symmetric] run1 r
    by (simp add: m1_def middleware1_effect res_status_def res_end_logging emit_finish_def
        new_response_def)
  show "statusCode (res (serve middleware2 env (run_ops env req ops) req w)) =
           snd (snd (script_result env req ops 200))"
    unfolding serve_def m2_def [symmetric] run2 r
    by (simp add: m2_def middleware2_effect res_status_def res_end_native emit_finish_def
        finish_listener_effect new_response_def)
qed

lemma serve1_lifecycle:
  assumes "ends_last env h"
  shows "service1_lines env req w (serve middleware1 env h req w) \<and>
     (mono (clk env) \<longrightarrow> timestamps_ordered (printed w (serve middleware1 env h req w)))"
proof -
  define W where "W = serve middleware1 env h req w"
  from serve1_printed [OF assms, of w req] obtain evs where
    q: "list_all quiet evs" and
    p: "printed w W =
       started1 req (fst (requestId_of env req w)) (clk env (Suc (ticks w))) # evs @
        [completed1 \<lparr>c_req = req, c_start = clk env (ticks w), c_requestId = fst (requestId_of env req w)\<rparr>
           (statusCode (res W)) (clk env (ticks W - 2) - clk env (ticks w)) (clk env (ticks W - 1))]" and
    t: "ticks w + 4 \<le> ticks W" and e: "ended (res W) \<noteq> None"
    unfolding W_def by blast
  have "one_start_one_completion (printed w W)"
    unfolding p by (rule bracket_one_start_one_completion [OF q]) simp_all
  then have "service1_lines env req w W"
    unfolding service1_lines_def using e by (simp add: p)
  moreover have "timestamps_ordered (printed w W)" if "mono (clk env)"
  proof -
    from t have "Suc (ticks w) \<le> ticks W - 1" by simp
    with that have "clk env (Suc (ticks w)) \<le> clk env (ticks W - 1)"
      by (rule monoD)
    then show ?thesis by (simp add: p timestamps_ordered_def)
  qed
  ultimately show ?thesis unfolding W_def by blast
qed

lemma serve2_lifecycle:
  assumes "ends_last env h" and "client_open env"
  shows "service2_lines env req w (serve middleware2 env h req w) \<and>
     (mono (clk env) \<longrightarrow> timestamps_ordered (printed w (serve middleware2 env h req w)))"
proof -
  define W where "W = serve middleware2 env h req w"
  from serve2_printed [OF assms, of w req] obtain evs where
    q: "list_all quiet evs" and
    p: "printed w W =
       started2 req (fst (requestId_of env req w)) (clk env (Suc (ticks w))) # evs @
        [completed2 \<lparr>c_req = req, c_start = clk env (ticks w), c_requestId = fst (requestId_of env req w)\<rparr>
           (statusCode (res W)) (clk env (ticks W - 2) - clk env (ticks w)) (clk env (ticks W - 1))]" and
    t: "ticks w + 4 \<le> ticks W" and e: "ended (res W) \<noteq> None"
    unfolding W_def by blast
  have "one_start_one_completion (printed w W)"
    unfolding p by (rule bracket_one_start_one_completion [OF q]) simp_all
  then have "service2_lines env req w W"
    unfolding service2_lines_def using e by (simp add: p)
  moreover have "timestamps_ordered (printed w W)" if "mono (clk env)"
  proof -
    from t have "Suc (ticks w) \<le> ticks W - 1" by simp
    with that have "clk env (Suc (ticks w)) \<le> clk env (ticks W - 1)"
      by (rule monoD)
    then show ?thesis by (simp add: p timestamps_ordered_def)
  qed
  ultimately show ?thesis unfolding W_def by blast
qed

lemma serve2_lifecycle_closed:
  assumes "ends_last env h" and "\<not> client_open env"
  shows "service2_start_only env req w (serve middleware2 env h req w)"
  using serve2_printed_closed [OF assms, of w req]
  by (auto simp: service2_start_only_def quiet_filter)


lemmas closed_run_steps =
  example_request_def anonymous_request_def example_env_def zero_env_def set_back_env_def
  closed_env_def example_world_def new_response_def
  app1_def app2_def serve_def middleware1_effect middleware2_effect
  requestId_of_def generated_id_value toString36_def substring_def
  health1_def health2_def not_found_def handler_defs
  res_end_logging res_end_native emit_finish_def finish_listener_effect printed_def

lemmas closed_run_defs =
  closed_run_steps health1_called_def health2_called_def
  started1_def started2_def completed1_def completed2_def opt_string_def

lemma service1_lines_share_request_id:
  "requestId_in (hd (printed w (app1 env rt req w))) = Some (fst (requestId_of env req w)) \<and>
   requestId_in (last (printed w (app1 env rt req w))) = Some (fst (requestId_of env req w))"
  using serve1_printed [where h = "handler1 env rt req" and env = env and w = w and req = req, OF handler1_ends_last]
  by (auto simp: app1_def)

lemma service2_completion_without_request_id:
  assumes "client_open env"
  shows "requestId_in (hd (printed w (app2 env rt req w))) = Some (fst (requestId_of env req w)) \<and>
   is_completed (last (printed w (app2 env rt req w))) \<and>
   map_of (last (printed w (app2 env rt req w))) ''requestId'' = None"
  using serve2_printed [where h = "handler2 env rt req" and env = env and w = w and req = req, OF handler2_ends_last assms]
  by (auto simp: app2_def)

text \<open>
  C1. For every request the middleware prints a start line and a completion line that
  carry the same correlation identifier: the value of the inbound \<^verbatim>\<open>X-Request-ID\<close>
  header when one was supplied, the same generated identifier otherwise.
  The request \<^verbatim>\<open>GET /\<close> with \<^verbatim>\<open>X-Request-ID: abc123\<close> is run through both
  services; the identifiers of the two middleware lines are listed.
\<close>

theorem service2_completion_lacks_request_id:
  "map requestId_in
     (filter (\<lambda>e. is_started e \<or> is_completed e)
       (printed example_world (app2 example_env Health2 example_request example_world))) =
     [Some ''abc123'', None] \<and>
   map requestId_in
     (filter (\<lambda>e. is_started e \<or> is_completed e)
       (printed example_world (app1 example_env Health1 example_request example_world))) =
     [Some ''abc123'', Some ''abc123'']"
  by (simp add: closed_run_defs is_started_def is_completed_def message_of_def requestId_in_def)

text \<open>
  C3. For every request exactly one start line and exactly one completion line are
  printed, in that order, and the completion line's timestamp is not before the start
  line's; the completion line is printed also when the downstream handler throws and
  the framework answers for it.
  The timestamps are readings of the wall clock: when the clock is set back during
  the request, the completion line is stamped earlier than the start line. And
  api-service-2 prints its completion line from the \<^verbatim>\<open>'finish'\<close> event: when the client
  has closed its connection before the answer, the request \<^verbatim>\<open>GET /\<close> prints a
  start line and no completion line.
\<close>

theorem completion_stamped_before_start:
  "\<not> timestamps_ordered
       (printed example_world (app1 set_back_env Health1 example_request example_world)) \<and>
   map timestamp_of
     (printed example_world (app1 set_back_env Health1 example_request example_world)) =
     [Some 1700000000010, Some 1699999999020, Some 1699999999040] \<and>
   map is_started
     (printed example_world (app2 closed_env Health2 example_request example_world)) =
     [True, False] \<and>
   map is_completed
     (printed example_world (app2 closed_env Health2 example_request example_world)) =
     [False, False]"
  by (simp add: closed_run_defs timestamps_ordered_def timestamp_of_def
      is_started_def is_completed_def message_of_def)

text \<open>
  C3, as the services have it. In api-service-1, every request to a route, and every
  request whose handler answers once (by its one call of \<^verbatim>\<open>res.end\<close> or by throwing
  before any), prints exactly one start line, first, and exactly one completion line,
  last; the start line is the middleware's, with the identifier selected for the
  request, and the completion line is the hook's and shows the status code that goes
  out. In api-service-2 the same holds when the client is still connected at the
  answer; when the client has closed its connection first, api-service-2 prints its
  start line, first, and no completion line. A handler given by its operations goes
  out with the status code in force at its one answer; a handler that throws at once
  goes out with 500. The completion line's timestamp is not before the start line's
  whenever the wall clock is not set back between readings.
\<close>

theorem request_lifecycle:
  "service1_lines env req w (app1 env rt1 req w) \<and>
   (client_open env \<longrightarrow> service2_lines env req w (app2 env rt2 req w)) \<and>
   (\<not> client_open env \<longrightarrow> service2_start_only env req w (app2 env rt2 req w)) \<and>
   (responds_last ops \<longrightarrow>
      service1_lines env req w (serve middleware1 env (run_ops env req ops) req w) \<and>
      statusCode (res (serve middleware1 env (run_ops env req ops) req w)) =
        snd (snd (script_result env req ops 200)) \<and>
      statusCode (res (serve middleware2 env (run_ops env req ops) req w)) =
        snd (snd (script_result env req ops 200)) \<and>
      (client_open env \<longrightarrow>
         service2_lines env req w (serve middleware2 env (run_ops env req ops) req w)) \<and>
      (\<not> client_open env \<longrightarrow>
         service2_start_only env req w (serve middleware2 env (run_ops env req ops) req w))) \<and>
   status_of (last (printed w (serve middleware1 env (run_ops env req (Throw # ops)) req w))) =
     Some 500 \<and>
   (client_open env \<longrightarrow>
      status_of (last (printed w (serve middleware2 env (run_ops env req (Throw # ops)) req w))) =
        Some 500) \<and>
   (mono (clk env) \<longrightarrow>
      timestamps_ordered (printed w (app1 env rt1 req w)) \<and>
      (client_open env \<longrightarrow> timestamps_ordered (printed w (app2 env rt2 req w))) \<and>
      (responds_last ops \<longrightarrow>
         timestamps_ordered (printed w (serve middleware1 env (run_ops env req ops) req w)) \<and>
         (client_open env \<longrightarrow>
            timestamps_ordered (printed w (serve middleware2 env (run_ops env req ops) req w)))))"
proof -
  note a1 = serve1_lifecycle [where h = "handler1 env rt1 req" and env = env and w = w and req = req,
      OF handler1_ends_last, folded app1_def]
  note a2 = serve2_lifecycle [where h = "handler2 env rt2 req" and env = env and w = w and req = req,
      OF handler2_ends_last, folded app2_def]
  note a3 = serve2_lifecycle_closed [where h = "handler2 env rt2 req" and env = env and w = w and req = req,
      OF handler2_ends_last, folded app2_def]
  have b: "service1_lines env req w (serve middleware1 env (run_ops env req ops') req w) \<and>
      statusCode (res (serve middleware1 env (run_ops env req ops') req w)) =
        snd (snd (script_result env req ops' 200)) \<and>
      statusCode (res (serve middleware2 env (run_ops env req ops') req w)) =
        snd (snd (script_result env req ops' 200)) \<and>
      (client_open env \<longrightarrow>
         service2_lines env req w (serve middleware2 env (run_ops env req ops') req w)) \<and>
      (\<not> client_open env \<longrightarrow>
         service2_start_only env req w (serve middleware2 env (run_ops env req ops') req w)) \<and>
      (mono (clk env) \<longrightarrow>
         timestamps_ordered (printed w (serve middleware1 env (run_ops env req ops') req w)) \<and>
         (client_open env \<longrightarrow>
            timestamps_ordered (printed w (serve middleware2 env (run_ops env req ops') req w))))"
    if r: "responds_last ops'" for ops'
    using serve1_lifecycle [where h = "run_ops env req ops'" and env = env and w = w and req = req,
        OF run_ops_ends_last [OF r]]
      serve2_lifecycle [where h = "run_ops env req ops'" and env = env and w = w and req = req,
        OF run_ops_ends_last [OF r]]
      serve2_lifecycle_closed [where h = "run_ops env req ops'" and env = env and w = w and req = req,
        OF run_ops_ends_last [OF r]]
      serve_script_status [OF r, of env req w]
    by blast
  have t: "responds_last (Throw # ops)" by simp
  have s: "snd (snd (script_result env req (Throw # ops) 200)) = 500"
    by (simp add: error_status_def)
  from b [OF t] have f1:
    "status_of (last (printed w (serve middleware1 env (run_ops env req (Throw # ops)) req w))) = Some 500"
    unfolding s service1_lines_def by simp
  from b [OF t] have f2:
    "status_of (last (printed w (serve middleware2 env (run_ops env req (Throw # ops)) req w))) = Some 500"
    if "client_open env"
    using that unfolding s service2_lines_def by simp
  from a1 a2 a3 b [of ops] f1 f2 show ?thesis by blast
qed

theorem request_lifecycle_witness:
  "mono (clk example_env) \<and> responds_last [Status 503, Throw] \<and>
   client_open example_env \<and> \<not> client_open closed_env \<and>
   service1_lines example_env example_request example_world
     (app1 example_env Health1 example_request example_world) \<and>
   status_of (last (printed example_world
     (app1 example_env Health1 example_request example_world))) = Some 200 \<and>
   status_of (last (printed example_world
     (app2 example_env NoRoute2 example_request example_world))) = Some 404 \<and>
   status_of (last (printed example_world
     (serve middleware1 example_env (run_ops example_env example_request [Status 503, Throw])
        example_request example_world))) = Some 503 \<and>
   status_of (last (printed example_world
     (serve middleware2 example_env (run_ops example_env example_request [Status 503, Throw])
        example_request example_world))) = Some 503 \<and>
   filter is_completed (printed example_world
     (serve middleware2 closed_env (run_ops closed_env example_request [Status 503, Throw])
        example_request example_world)) = [] \<and>
   status_of (last (printed example_world
     (serve middleware1 closed_env (run_ops closed_env example_request [Status 503, Throw])
        example_request example_world))) = Some 503 \<and>
   timestamps_ordered (printed example_world (app1 example_env Health1 example_request example_world)) \<and>
   timestamps_ordered
     (printed example_world
       (serve middleware2 example_env (run_ops example_env example_request [Status 503, Throw])
          example_request example_world))"
proof -
  have m: "mono (clk example_env)" by (simp add: mono_def example_env_def)
  have r: "responds_last [Status 503, Throw]" by simp
  have o: "client_open example_env" "\<not> client_open closed_env"
    by (simp_all add: closed_env_def example_env_def)
  have s: "snd (snd (script_result env example_request [Status 503, Throw] 200)) = 503" for env
    by (simp add: error_status_def)
  have h: "statusCode (res (app1 example_env Health1 example_request example_world)) = 200"
    "statusCode (res (app2 example_env NoRoute2 example_request example_world)) = 404"
    by (simp_all add: closed_run_steps)
  note open_run = request_lifecycle [where w = example_world and env = example_env and ?rt1.0 = Health1
      and req = example_request and ?rt2.0 = NoRoute2 and ops = "[Status 503, Throw]"]
  note closed_run = request_lifecycle [where w = example_world and env = closed_env and ?rt1.0 = Health1
      and req = example_request and ?rt2.0 = NoRoute2 and ops = "[Status 503, Throw]"]
  from open_run m r o(1) have
    "service1_lines example_env example_request example_world
       (app1 example_env Health1 example_request example_world)"
    "status_of (last (printed example_world
       (app1 example_env Health1 example_request example_world))) = Some 200"
    "status_of (last (printed example_world
       (app2 example_env NoRoute2 example_request example_world))) = Some 404"
    "status_of (last (printed example_world
       (serve middleware1 example_env (run_ops example_env example_request [Status 503, Throw])
          example_request example_world))) = Some 503"
    "status_of (last (printed example_world
       (serve middleware2 example_env (run_ops example_env example_request [Status 503, Throw])
          example_request example_world))) = Some 503"
    "timestamps_ordered (printed example_world (app1 example_env Health1 example_request example_world))"
    "timestamps_ordered
       (printed example_world
         (serve middleware2 example_env (run_ops example_env example_request [Status 503, Throw])
            example_request example_world))"
    unfolding service1_lines_def service2_lines_def s h by simp_all
  moreover from closed_run r o(2) have
    "filter is_completed (printed example_world
       (serve middleware2 closed_env (run_ops closed_env example_request [Status 503, Throw])
          example_request example_world)) = []"
    "status_of (last (printed example_world
       (serve middleware1 closed_env (run_ops closed_env example_request [Status 503, Throw])
          example_request example_world))) = Some 503"
    unfolding service1_lines_def service2_start_only_def s by simp_all
  ultimately show ?thesis using m r o by simp
qed

text \<open>
  C5. The duration in the completion line is non-negative and is the time elapsed
  between the timestamp taken at request start and the timestamp at response
  finalisation, the start timestamp being taken from a monotonic clock.
  Both timestamps are \<^verbatim>\<open>Date.now()\<close>, the wall clock: when it is set back by a second
  during the request, the duration is negative.
\<close>

theorem negative_duration:
  "duration_of (last (printed example_world
      (app1 set_back_env Health1 example_request example_world))) = Some (- 970) \<and>
   duration_of (last (printed example_world
      (app2 set_back_env Health2 example_request example_world))) = Some (- 970)"
  by (simp add: closed_run_defs duration_of_def)

text \<open>
  C5, as the services have it. The last line of a request is the completion line, and
  its duration is the reading of \<^verbatim>\<open>Date.now()\<close> that the completion hook takes first
  (the last but one reading of the request) minus the reading the middleware took first
  of all. It is non-negative whenever the wall clock is not set back between readings.
  In api-service-2 the completion line is there when the client is still connected at
  the answer; when the client has closed its connection first, api-service-2 prints no
  completion line and so no duration.
\<close>

theorem duration_is_clock_difference:
  "is_completed (last (printed w (app1 env rt1 req w))) \<and>
   duration_of (last (printed w (app1 env rt1 req w))) =
     Some (of_int (clk env (ticks (app1 env rt1 req w) - 2) - clk env (ticks w))) \<and>
   (client_open env \<longrightarrow>
      is_completed (last (printed w (app2 env rt2 req w))) \<and>
      duration_of (last (printed w (app2 env rt2 req w))) =
        Some (of_int (clk env (ticks (app2 env rt2 req w) - 2) - clk env (ticks w)))) \<and>
   (\<not> client_open env \<longrightarrow> filter is_completed (printed w (app2 env rt2 req w)) = []) \<and>
   (mono (clk env) \<longrightarrow>
      0 \<le> clk env (ticks (app1 env rt1 req w) - 2) - clk env (ticks w) \<and>
      (client_open env \<longrightarrow>
         0 \<le> clk env (ticks (app2 env rt2 req w) - 2) - clk env (ticks w)))"
proof -
  note d1 = serve1_completion_duration [where h = "handler1 env rt1 req" and env = env and w = w and req = req,
      OF handler1_ends_last, folded app1_def]
  note d2 = serve2_completion_duration [where h = "handler2 env rt2 req" and env = env and w = w and req = req,
      OF handler2_ends_last, folded app2_def]
  note d3 = serve2_closed_no_completion [where h = "handler2 env rt2 req" and env = env and w = w and req = req,
      OF handler2_ends_last, folded app2_def]
  have "clk env (ticks w) \<le> clk env (ticks (app1 env rt1 req w) - 2)" if "mono (clk env)"
    using d1 by (intro monoD [OF that]) simp
  moreover have "clk env (ticks w) \<le> clk env (ticks (app2 env rt2 req w) - 2)"
    if "mono (clk env)" "client_open env"
    using d2 [OF that(2)] by (intro monoD [OF that(1)]) simp
  ultimately show ?thesis using d1 d2 d3 by simp
qed

theorem duration_is_clock_difference_witness:
  "mono (clk example_env) \<and> client_open example_env \<and> \<not> client_open closed_env \<and>
   duration_of (last (printed example_world (app1 example_env Health1 example_request example_world))) =
     Some 30 \<and>
   duration_of (last (printed example_world (app2 example_env Health2 example_request example_world))) =
     Some 30 \<and>
   0 \<le> clk example_env (ticks (app2 example_env Health2 example_request example_world) - 2)
        - clk example_env (ticks example_world) \<and>
   filter is_completed
     (printed example_world (app2 closed_env Health2 example_request example_world)) = []"
proof -
  have m: "mono (clk example_env)" by (simp add: mono_def example_env_def)
  have o: "client_open example_env" "\<not> client_open closed_env"
    by (simp_all add: closed_env_def example_env_def)
  have t: "ticks (app1 example_env Health1 example_request example_world) = 5"
    "ticks (app2 example_env Health2 example_request example_world) = 5"
    by (simp_all add: closed_run_defs)
  from duration_is_clock_difference [where w = example_world and env = example_env and ?rt1.0 = Health1
      and req = example_request and ?rt2.0 = Health2] m o(1)
  have "duration_of (last (printed example_world (app1 example_env Health1 example_request example_world))) =
     Some 30"
    "duration_of (last (printed example_world (app2 example_env Health2 example_request example_world))) =
     Some 30"
    "0 \<le> clk example_env (ticks (app2 example_env Health2 example_request example_world) - 2)
        - clk example_env (ticks example_world)"
    by (simp_all add: t) (simp_all add: example_env_def example_world_def)
  moreover from duration_is_clock_difference [where w = example_world and env = closed_env and ?rt1.0 = Health1
      and req = example_request and ?rt2.0 = Health2] o(2)
  have "filter is_completed
     (printed example_world (app2 closed_env Health2 example_request example_world)) = []"
    by simp
  ultimately show ?thesis using m o by simp
qed

section \<open>The histogram and the outcome of /random-fail\<close>

declare requestId_of_res [simp]

lemma call_end_frame:
  "hist (snd (call_end em env chunk enc w)) = hist w \<and>
   draws (snd (call_end em env chunk enc w)) = draws w \<and>
   statusCode (res (snd (call_end em env chunk enc w))) = statusCode (res w)"
proof (induction em arbitrary: w)
  case NativeEnd
  show ?case by (simp add: native_end_def)
next
  case (LoggingEnd c em)
  show ?case
    by (simp add: end_override_def date_now_def console_log_def Let_def LoggingEnd.IH)
qed

lemma res_end_frame [simp]:
  "hist (res_end env chunk enc w) = hist w"
  "draws (res_end env chunk enc w) = draws w"
  "statusCode (res (res_end env chunk enc w)) = statusCode (res w)"
  by (simp_all add: res_end_def call_end_frame)

lemma fold_finish_listener_frame:
  "hist (fold (finish_listener env) cs w) = hist w \<and>
   res (fold (finish_listener env) cs w) = res w"
  by (induction cs arbitrary: w) (simp_all add: finish_listener_effect)

lemma emit_finish_frame [simp]:
  "hist (emit_finish env w) = hist w"
  "res (emit_finish env w) = res w"
  by (simp_all add: emit_finish_def fold_finish_listener_frame)

lemma middleware_frame [simp]:
  "hist (middleware1 env req w) = hist w"
  "hist (middleware2 env req w) = hist w"
  "ticks (middleware1 env req w) = Suc (Suc (ticks w))"
  "ticks (middleware2 env req w) = Suc (Suc (ticks w))"
  "statusCode (res (middleware1 env req w)) = statusCode (res w)"
  "statusCode (res (middleware2 env req w)) = statusCode (res w)"
  by (simp_all add: middleware1_effect middleware2_effect)

lemma handler1_hist:
  "hist (handler1 env rt req w) =
     hist w @
     (if rt = TestService2 \<and> peer_ok (peer env)
      then [((''GET'', ''/test-service-2'', ''200''),
             seconds (clk env (ticks w + 3) - clk env (ticks w + 1)))]
      else [])"
  by (cases rt; cases "peer env")
    (simp_all add: heavy_task_def test_service_2_def metrics1_def info_def health1_def
      not_found_def handler_defs tick_shift)

lemma handler2_hist:
  "hist (handler2 env rt req w) =
     hist w @
     (if rt = TestService1 \<and> peer_ok (peer env)
      then [((''GET'', ''/test-service-1'', ''200''),
             seconds (clk env (ticks w + 3) - clk env (ticks w + 1)))]
      else [])"
  by (cases rt; cases "peer env")
    (simp_all add: compute_def random_fail_def test_service_1_def metrics2_def health2_def
      not_found_def handler_defs tick_shift)

lemma peer_call_status:
  "peer_ok (peer env) \<Longrightarrow> statusCode (res (test_service_2 env w)) = statusCode (res w)"
  "peer_ok (peer env) \<Longrightarrow> statusCode (res (test_service_1 env w)) = statusCode (res w)"
  by (cases "peer env"; simp add: test_service_2_def test_service_1_def handler_defs)+

text \<open>
  C2. For every completed request exactly one latency observation is recorded into
  the histogram, in seconds, under the labels (method, route, status code) of that
  request. The request \<^verbatim>\<open>GET /\<close> to api-service-1 completes and records none.
\<close>

theorem health_check_records_no_observation:
  "ended (res (app1 example_env Health1 example_request example_world)) \<noteq> None \<and>
   hist example_world = [] \<and>
   hist (app1 example_env Health1 example_request example_world) = []"
  by (simp add: app1_def serve_def handler1_hist)
    (simp add: closed_run_defs)

text \<open>
  C2, as the services have it. The middleware records nothing. The histogram is
  observed only by the handler that calls the peer service (\<^verbatim>\<open>/test-service-2\<close> in
  api-service-1, \<^verbatim>\<open>/test-service-1\<close> in api-service-2), and only when that call
  succeeded: then exactly one observation is added, under the fixed labels
  \<^verbatim>\<open>("GET", route, "200")\<close>, its value the duration of the peer call in seconds, and
  the request goes out with status 200. Every other request leaves the histogram as
  it was.
\<close>

theorem observation_only_on_peer_call:
  "hist (app1 env rt1 req w) =
     hist w @
     (if rt1 = TestService2 \<and> peer_ok (peer env)
      then [((''GET'', ''/test-service-2'', ''200''),
             seconds (clk env (ticks w + 5) - clk env (ticks w + 3)))]
      else []) \<and>
   hist (app2 env rt2 req w) =
     hist w @
     (if rt2 = TestService1 \<and> peer_ok (peer env)
      then [((''GET'', ''/test-service-1'', ''200''),
             seconds (clk env (ticks w + 5) - clk env (ticks w + 3)))]
      else []) \<and>
   (peer_ok (peer env) \<longrightarrow>
      statusCode (res (app1 env TestService2 req w)) = 200 \<and>
      statusCode (res (app2 env TestService1 req w)) = 200)"
  by (simp add: app1_def app2_def serve_def handler1_hist handler2_hist peer_call_status
      tick_shift)
    (simp add: new_response_def)

theorem observation_only_on_peer_call_witness:
  "peer_ok (peer example_env) \<and>
   hist (app1 example_env TestService2 example_request example_world) =
     [((''GET'', ''/test-service-2'', ''200''), seconds 20)] \<and>
   statusCode (res (app1 example_env TestService2 example_request example_world)) = 200 \<and>
   hist (app2 example_env Health2 example_request example_world) = []"
proof -
  have p: "peer_ok (peer example_env)" by (simp add: example_env_def)
  from observation_only_on_peer_call [where env = example_env and ?rt1.0 = TestService2
      and ?rt2.0 = Health2 and req = example_request and w = example_world] p
  show ?thesis by (simp add: example_world_def) (simp add: example_env_def)
qed



section \<open>What goes out\<close>

lemma end_override_forwards:
  "end_override env c originalEnd chunk encoding w =
     originalEnd chunk encoding
       (w\<lparr>ticks := Suc (Suc (ticks w)),
          stdout := stdout w @
            [completed1 c (statusCode (res w)) (clk env (ticks w) - c_start c)
               (clk env (Suc (ticks w)))]\<rparr>)"
  by (simp add: end_override_def date_now_def console_log_def Let_def)

lemma call_end_ended:
  "ended (res (snd (call_end em env chunk enc w))) =
     (if ended (res w) = None then Some (chunk, enc) else ended (res w))"
proof (induction em arbitrary: w)
  case NativeEnd
  show ?case by (simp add: native_end_def)
next
  case (LoggingEnd c em)
  show ?case by (simp add: end_override_forwards LoggingEnd.IH)
qed

lemma res_end_sent:
  "sent (res_end env chunk enc w) =
     (statusCode (res w), if ended (res w) = None then Some (chunk, enc) else ended (res w))"
  by (simp add: sent_def res_end_def call_end_ended call_end_frame)

lemma run_ops_sent:
  assumes "sent w1 = sent w2"
  shows "sent (run_ops env req ops w1) = sent (run_ops env req ops w2)"
  using assms
proof (induction ops arbitrary: w1 w2)
  case Nil
  then show ?case by simp
next
  case (Cons op ops)
  show ?case
  proof (cases op)
    case (Status n)
    have "sent (res_status n w1) = sent (res_status n w2)"
      using Cons.prems by (simp add: sent_def)
    from Cons.IH [OF this] show ?thesis by (simp add: Status)
  next
    case (End chunk encoding)
    have "sent (res_end env chunk encoding w1) = sent (res_end env chunk encoding w2)"
      using Cons.prems by (simp add: res_end_sent) (simp add: sent_def)
    from Cons.IH [OF this] show ?thesis by (simp add: End)
  next
    case Throw
    from Cons.prems have e: "ended (res w1) = ended (res w2)" "statusCode (res w1) = statusCode (res w2)"
      by (simp_all add: sent_def)
    show ?thesis
    proof (cases "ended (res w2)")
      case None
      then show ?thesis by (simp add: Throw on_error_def Let_def res_end_sent e)
    next
      case (Some a)
      with Cons.prems show ?thesis by (simp add: Throw on_error_def e)
    qed
  qed
qed

lemma emit_finish_sent [simp]: "sent (emit_finish env w) = sent w"
  by (simp add: sent_def)

lemma middleware_sent [simp]:
  "sent (middleware1 env req w) = sent w" "sent (middleware2 env req w) = sent w"
  by (simp_all add: sent_def middleware1_effect middleware2_effect)

lemma unhooked_frame [simp]:
  "sent (unhooked w) = sent w" "ticks (unhooked w) = ticks w" "draws (unhooked w) = draws w"
  "hist (unhooked w) = hist w"
  by (simp_all add: unhooked_def sent_def)




lemma sent_steps:
  "sent (console_log e w) = sent w"
  "sent (snd (date_now env w)) = sent w"
  "sent (snd (math_random env w)) = sent w"
  "sent (observe l v w) = sent w"
  "sent (res_set k x w) = sent w"
  "sent (res_status n w) = (n, snd (sent w))"
  "sent (res_end env chunk enc w) = (fst (sent w), first_end w (chunk, enc))"
  "sent (res_send env body w) = (fst (sent w), first_end w (Some body, Some ''utf8''))"
  "sent (res_json env obj w) = (fst (sent w), first_end w (Some (stringify env obj), Some ''utf8''))"
  by (simp_all add: sent_def console_log_def date_now_def math_random_def observe_def res_set_def
      res_status_def res_json_def res_send_def res_end_def call_end_ended call_end_frame first_end_def)

lemma first_end_steps:
  "first_end (console_log e w) = first_end w"
  "first_end (snd (date_now env w)) = first_end w"
  "first_end (snd (math_random env w)) = first_end w"
  "first_end (observe l v w) = first_end w"
  "first_end (res_set k x w) = first_end w"
  "first_end (res_status n w) = first_end w"
  by (simp_all add: fun_eq_iff first_end_def console_log_def date_now_def math_random_def observe_def
      res_set_def res_status_def)

lemma counter_steps:
  "ticks (console_log e w) = ticks w" "draws (console_log e w) = draws w" "hist (console_log e w) = hist w"
  "fst (date_now env w) = clk env (ticks w)"
  "ticks (snd (date_now env w)) = Suc (ticks w)" "draws (snd (date_now env w)) = draws w"
  "hist (snd (date_now env w)) = hist w"
  "fst (math_random env w) = rnd env (draws w)"
  "ticks (snd (math_random env w)) = ticks w" "draws (snd (math_random env w)) = Suc (draws w)"
  "hist (snd (math_random env w)) = hist w"
  "ticks (observe l v w) = ticks w" "draws (observe l v w) = draws w"
  "hist (observe l v w) = hist w @ [(l, v)]"
  "ticks (res_set k x w) = ticks w" "draws (res_set k x w) = draws w" "hist (res_set k x w) = hist w"
  "draws (res_status n w) = draws w"
  by (simp_all add: console_log_def date_now_def math_random_def observe_def res_set_def res_status_def)

lemmas handler_steps = Let_def split_def sent_steps first_end_steps counter_steps

lemma first_end_cong: "sent w1 = sent w2 \<Longrightarrow> first_end w1 = first_end w2"
  by (simp add: fun_eq_iff first_end_def sent_def)

lemma heavy_task_sent:
  assumes "ticks w1 = ticks w2" "draws w1 = draws w2" "hist w1 = hist w2" "sent w1 = sent w2"
  shows "sent (heavy_task env w1) = sent (heavy_task env w2)"
  using assms first_end_cong [OF assms(4)]
  by (simp add: heavy_task_def handler_steps)

lemma test_service_2_sent:
  assumes "ticks w1 = ticks w2" "draws w1 = draws w2" "hist w1 = hist w2" "sent w1 = sent w2"
  shows "sent (test_service_2 env w1) = sent (test_service_2 env w2)"
  using assms first_end_cong [OF assms(4)]
  by (simp add: test_service_2_def handler_steps split: peer_outcome.split)

lemma metrics1_sent:
  assumes "ticks w1 = ticks w2" "draws w1 = draws w2" "hist w1 = hist w2" "sent w1 = sent w2"
  shows "sent (metrics1 env w1) = sent (metrics1 env w2)"
  using assms first_end_cong [OF assms(4)]
  by (simp add: metrics1_def handler_steps)

lemma info_sent:
  assumes "ticks w1 = ticks w2" "draws w1 = draws w2" "hist w1 = hist w2" "sent w1 = sent w2"
  shows "sent (info env w1) = sent (info env w2)"
  using assms first_end_cong [OF assms(4)]
  by (simp add: info_def handler_steps)

lemma health1_sent:
  assumes "ticks w1 = ticks w2" "draws w1 = draws w2" "hist w1 = hist w2" "sent w1 = sent w2"
  shows "sent (health1 env w1) = sent (health1 env w2)"
  using assms first_end_cong [OF assms(4)]
  by (simp add: health1_def handler_steps)

lemma compute_sent:
  assumes "ticks w1 = ticks w2" "draws w1 = draws w2" "hist w1 = hist w2" "sent w1 = sent w2"
  shows "sent (compute env w1) = sent (compute env w2)"
  using assms first_end_cong [OF assms(4)]
  by (simp add: compute_def handler_steps)

lemma random_fail_sent:
  assumes "ticks w1 = ticks w2" "draws w1 = draws w2" "hist w1 = hist w2" "sent w1 = sent w2"
  shows "sent (random_fail env w1) = sent (random_fail env w2)"
  using assms first_end_cong [OF assms(4)]
  by (simp add: random_fail_def handler_steps)

lemma test_service_1_sent:
  assumes "ticks w1 = ticks w2" "draws w1 = draws w2" "hist w1 = hist w2" "sent w1 = sent w2"
  shows "sent (test_service_1 env w1) = sent (test_service_1 env w2)"
  using assms first_end_cong [OF assms(4)]
  by (simp add: test_service_1_def handler_steps split: peer_outcome.split)

lemma metrics2_sent:
  assumes "ticks w1 = ticks w2" "draws w1 = draws w2" "hist w1 = hist w2" "sent w1 = sent w2"
  shows "sent (metrics2 env w1) = sent (metrics2 env w2)"
  using assms first_end_cong [OF assms(4)]
  by (simp add: metrics2_def handler_steps)

lemma health2_sent:
  assumes "ticks w1 = ticks w2" "draws w1 = draws w2" "hist w1 = hist w2" "sent w1 = sent w2"
  shows "sent (health2 env w1) = sent (health2 env w2)"
  using assms first_end_cong [OF assms(4)]
  by (simp add: health2_def handler_steps)

lemma not_found_sent:
  assumes "sent w1 = sent w2"
  shows "sent (not_found env req w1) = sent (not_found env req w2)"
  using assms first_end_cong [OF assms]
  by (simp add: not_found_def handler_steps)

lemma handler1_sent:
  assumes "ticks w1 = ticks w2" "draws w1 = draws w2" "hist w1 = hist w2" "sent w1 = sent w2"
  shows "sent (handler1 env rt req w1) = sent (handler1 env rt req w2)"
  by (cases rt; simp only: handler1.simps;
      rule heavy_task_sent [OF assms] test_service_2_sent [OF assms] metrics1_sent [OF assms]
        info_sent [OF assms] health1_sent [OF assms] not_found_sent [OF assms(4)])

lemma handler2_sent:
  assumes "ticks w1 = ticks w2" "draws w1 = draws w2" "hist w1 = hist w2" "sent w1 = sent w2"
  shows "sent (handler2 env rt req w1) = sent (handler2 env rt req w2)"
  by (cases rt; simp only: handler2.simps;
      rule compute_sent [OF assms] random_fail_sent [OF assms] test_service_1_sent [OF assms]
        metrics2_sent [OF assms] health2_sent [OF assms] not_found_sent [OF assms(4)])

text \<open>
  C8. The middleware leaves the response body and the status code set by the
  downstream handler unchanged: what goes out is what the handler produced, and the
  function that replaces \<^verbatim>\<open>res.end\<close> forwards its arguments and its return value
  unmodified. The replacement is \<open>originalEnd\<close> on the same arguments, after two clock
  readings and one printed line, whatever \<open>originalEnd\<close> is; a handler given by its
  operations sends the same through either middleware as through none; and every route
  sends what its handler sends on the response object without the hooks.
\<close>

theorem middleware_leaves_response_unchanged:
  "end_override env c originalEnd chunk encoding w =
     originalEnd chunk encoding
       (w\<lparr>ticks := Suc (Suc (ticks w)),
          stdout := stdout w @
            [completed1 c (statusCode (res w)) (clk env (ticks w) - c_start c)
               (clk env (Suc (ticks w)))]\<rparr>) \<and>
   sent (serve middleware1 env (run_ops env req ops) req w) =
     sent (serve bare env (run_ops env req ops) req w) \<and>
   sent (serve middleware2 env (run_ops env req ops) req w) =
     sent (serve bare env (run_ops env req ops) req w) \<and>
   sent (app1 env rt1 req w) =
     sent (handler1 env rt1 req (unhooked (middleware1 env req (w\<lparr>res := new_response\<rparr>)))) \<and>
   sent (app2 env rt2 req w) =
     sent (handler2 env rt2 req (unhooked (middleware2 env req (w\<lparr>res := new_response\<rparr>))))"
proof -
  have "sent (run_ops env req ops (middleware1 env req (w\<lparr>res := new_response\<rparr>))) =
     sent (run_ops env req ops (w\<lparr>res := new_response\<rparr>))"
    by (rule run_ops_sent) simp
  then have "sent (serve middleware1 env (run_ops env req ops) req w) =
     sent (serve bare env (run_ops env req ops) req w)"
    by (simp add: serve_def bare_def)
  moreover have "sent (run_ops env req ops (middleware2 env req (w\<lparr>res := new_response\<rparr>))) =
     sent (run_ops env req ops (w\<lparr>res := new_response\<rparr>))"
    by (rule run_ops_sent) simp
  then have "sent (serve middleware2 env (run_ops env req ops) req w) =
     sent (serve bare env (run_ops env req ops) req w)"
    by (simp add: serve_def bare_def)
  moreover have "sent (app1 env rt1 req w) =
     sent (handler1 env rt1 req (unhooked (middleware1 env req (w\<lparr>res := new_response\<rparr>))))"
    unfolding app1_def serve_def emit_finish_sent by (rule handler1_sent) simp_all
  moreover have "sent (app2 env rt2 req w) =
     sent (handler2 env rt2 req (unhooked (middleware2 env req (w\<lparr>res := new_response\<rparr>))))"
    unfolding app2_def serve_def emit_finish_sent by (rule handler2_sent) simp_all
  ultimately show ?thesis by (simp add: end_override_forwards)
qed

section \<open>The two middlewares side by side\<close>

text \<open>
  The two services are two processes: each has its own clock, its own random source
  and its own client, and so each is run in an environment and from a state of its
  own. What the framework is the same in both is its final page.
\<close>

lemma started_up_to_service_id_timestamp:
  "without [''service'', ''requestId'', ''timestamp''] (started1 req i t) =
   without [''service'', ''requestId'', ''timestamp''] (started2 req i' t')"
  by (simp add: without_def started1_def started2_def)

lemma started_up_to_service_timestamp:
  "without [''service'', ''timestamp''] (started1 req i t) =
   without [''service'', ''timestamp''] (started2 req i t')"
  by (simp add: without_def started1_def started2_def)

lemma started_up_to_service_id_times:
  "without [''service'', ''requestId'', ''duration'', ''timestamp''] (started1 req i t) =
   without [''service'', ''requestId'', ''duration'', ''timestamp''] (started2 req i' t')"
  by (simp add: without_def started1_def started2_def)

lemma completed_up_to_service_id_times:
  assumes "c_req c = c_req c'"
  shows "without [''service'', ''requestId'', ''duration'', ''timestamp''] (completed1 c s d t) =
   without [''service'', ''requestId'', ''duration'', ''timestamp''] (completed2 c' s d' t')"
  using assms by (simp add: without_def completed1_def completed2_def)

lemma script_result_final_page:
  assumes "final_page env' = final_page env"
  shows "script_result env' req ops sc = script_result env req ops sc"
proof (induction ops arbitrary: sc)
  case Nil
  show ?case by simp
next
  case (Cons op ops)
  then show ?case using assms by (cases op) simp_all
qed

lemma requestId_of_header:
  assumes "headers req ''x-request-id'' = Some h" and "h \<noteq> []"
  shows "fst (requestId_of env req w) = h"
  using assms by (simp add: requestId_of_def)

lemma serve1_script:
  assumes "responds_last ops" and r: "script_result env req ops 200 = (chunk, encoding, n)"
  shows "printed w (serve middleware1 env (run_ops env req ops) req w) =
       [started1 req (fst (requestId_of env req w)) (clk env (Suc (ticks w))),
        completed1 \<lparr>c_req = req, c_start = clk env (ticks w), c_requestId = fst (requestId_of env req w)\<rparr>
          n (clk env (ticks w + 2) - clk env (ticks w)) (clk env (ticks w + 3))] \<and>
     sent (serve middleware1 env (run_ops env req ops) req w) = (n, Some (chunk, encoding))"
proof -
  define m where "m = middleware1 env req (w\<lparr>res := new_response\<rparr>)"
  have fresh: "ended (res m) = None" and st: "statusCode (res m) = 200"
    by (simp_all add: m_def middleware1_effect new_response_def)
  have run: "run_ops env req ops m = res_end env chunk encoding (res_status n m)"
    by (simp add: run_ops_responds_last [OF assms(1) fresh] st r)
  show ?thesis
    unfolding serve_def m_def [symmetric] run
    by (simp add: m_def middleware1_effect res_status_def res_end_logging emit_finish_def
        new_response_def printed_def sent_def tick_shift)
qed

lemma serve2_script:
  assumes "responds_last ops" and r: "script_result env req ops 200 = (chunk, encoding, n)"
  shows "printed w (serve middleware2 env (run_ops env req ops) req w) =
       started2 req (fst (requestId_of env req w)) (clk env (Suc (ticks w))) #
       (if client_open env
        then [completed2 \<lparr>c_req = req, c_start = clk env (ticks w), c_requestId = fst (requestId_of env req w)\<rparr>
                n (clk env (ticks w + 2) - clk env (ticks w)) (clk env (ticks w + 3))]
        else []) \<and>
     sent (serve middleware2 env (run_ops env req ops) req w) = (n, Some (chunk, encoding))"
proof -
  define m where "m = middleware2 env req (w\<lparr>res := new_response\<rparr>)"
  have fresh: "ended (res m) = None" and st: "statusCode (res m) = 200"
    by (simp_all add: m_def middleware2_effect new_response_def)
  have run: "run_ops env req ops m = res_end env chunk encoding (res_status n m)"
    by (simp add: run_ops_responds_last [OF assms(1) fresh] st r)
  show ?thesis
    unfolding serve_def m_def [symmetric] run
    by (cases "client_open env")
      (simp_all add: m_def middleware2_effect res_status_def res_end_native emit_finish_def
        finish_listener_effect new_response_def printed_def sent_def tick_shift)
qed

lemma no_route_runs:
  "printed w (app1 env NoRoute1 req w) =
       [started1 req (fst (requestId_of env req w)) (clk env (Suc (ticks w))),
        completed1 \<lparr>c_req = req, c_start = clk env (ticks w), c_requestId = fst (requestId_of env req w)\<rparr>
          404 (clk env (ticks w + 2) - clk env (ticks w)) (clk env (ticks w + 3))]"
  "printed w (app2 env NoRoute2 req w) =
       started2 req (fst (requestId_of env req w)) (clk env (Suc (ticks w))) #
       (if client_open env
        then [completed2 \<lparr>c_req = req, c_start = clk env (ticks w), c_requestId = fst (requestId_of env req w)\<rparr>
                404 (clk env (ticks w + 2) - clk env (ticks w)) (clk env (ticks w + 3))]
        else [])"
  "sent (app1 env NoRoute1 req w) = (404, Some (Some (final_page env 404 req), Some ''utf8''))"
  "sent (app2 env NoRoute2 req w) = (404, Some (Some (final_page env 404 req), Some ''utf8''))"
  by (simp_all add: app1_def app2_def serve_def not_found_def middleware1_effect middleware2_effect
      res_status_def res_end_logging res_end_native emit_finish_def finish_listener_effect
      new_response_def printed_def sent_def tick_shift)

lemma hook1_prints_on_every_call:
  assumes "end_method (res w) = LoggingEnd c NativeEnd"
  shows "printed w (res_end env chunk encoding w) =
     [completed1 c (statusCode (res w)) (clk env (ticks w) - c_start c) (clk env (Suc (ticks w)))]"
  by (simp add: res_end_logging [OF assms] printed_def)

lemma hook2_prints_once_finished:
  assumes "finish_listeners (res w) = [c]"
  shows "printed w (emit_finish env w) =
     (if ended (res w) \<noteq> None \<and> client_open env
      then [completed2 c (statusCode (res w)) (clk env (ticks w) - c_start c) (clk env (Suc (ticks w)))]
      else [])"
  by (simp add: emit_finish_def assms finish_listener_effect printed_def)

text \<open>
  C4. The middleware is duplicated verbatim across the two services: for every
  request and response both print the same start and completion lines, up to the
  \<^verbatim>\<open>service\<close> field, and use the same hook on the response. For a request with
  \<^verbatim>\<open>X-Request-ID: abc123\<close> that no route matches, the completion lines differ in more
  than the service field; for a handler that calls \<^verbatim>\<open>res.end\<close> twice, api-service-1
  prints two completion lines where api-service-2 prints one; and for a client that
  has closed its connection before the answer, api-service-1 prints one completion
  line where api-service-2 prints none.
\<close>

theorem middlewares_differ:
  "without [''service'']
     (last (printed example_world (app1 example_env NoRoute1 example_request example_world))) \<noteq>
   without [''service'']
     (last (printed example_world (app2 example_env NoRoute2 example_request example_world))) \<and>
   length (filter is_completed
     (printed example_world
        (serve middleware1 example_env
           (run_ops example_env example_request [End None None, End None None])
           example_request example_world))) = 2 \<and>
   length (filter is_completed
     (printed example_world
        (serve middleware2 example_env
           (run_ops example_env example_request [End None None, End None None])
           example_request example_world))) = 1 \<and>
   length (filter is_completed
     (printed example_world (app1 closed_env NoRoute1 example_request example_world))) = 1 \<and>
   length (filter is_completed
     (printed example_world (app2 closed_env NoRoute2 example_request example_world))) = 0"
  by (simp add: no_route_runs closed_run_steps)
    (simp add: without_def completed1_def completed2_def)

text \<open>
  C4, as the services have it. Each service runs in a process of its own, with its own
  clock, random source and client. On every route the start lines of the two services
  agree on every field other than \<^verbatim>\<open>service\<close>, \<^verbatim>\<open>requestId\<close> and \<^verbatim>\<open>timestamp\<close>, and
  also on \<^verbatim>\<open>requestId\<close> when the request carries a non-empty \<^verbatim>\<open>X-Request-ID\<close>.
  Where both run the same handler and it answers once, as its last action (also the
  final handler, when no route matches), the same status and body go out, and
  api-service-1 prints its start line and its completion line and nothing else; so does
  api-service-2 when its client is still connected at the answer, and then the lines of
  the two agree on every field other than \<^verbatim>\<open>service\<close>, \<^verbatim>\<open>requestId\<close>, \<^verbatim>\<open>duration\<close>
  and \<^verbatim>\<open>timestamp\<close>; when its client has closed the connection first, api-service-2
  prints its start line only. The hooks differ: api-service-1 prints its completion
  line inside every call of \<^verbatim>\<open>res.end\<close>, before the library's \<^verbatim>\<open>end\<close> runs;
  api-service-2 prints it when \<^verbatim>\<open>'finish'\<close> is emitted, once, for a finalised response
  whose client is still connected.
\<close>

theorem middlewares_agree_when_ended_once:
  "without [''service'', ''requestId'', ''timestamp''] (hd (printed w (app1 env rt1 req w))) =
     without [''service'', ''requestId'', ''timestamp''] (hd (printed w' (app2 env' rt2 req w'))) \<and>
   (headers req ''x-request-id'' = Some h \<and> h \<noteq> [] \<longrightarrow>
      without [''service'', ''timestamp''] (hd (printed w (app1 env rt1 req w))) =
        without [''service'', ''timestamp''] (hd (printed w' (app2 env' rt2 req w')))) \<and>
   (responds_last ops \<and> final_page env' = final_page env \<longrightarrow>
      sent (serve middleware1 env (run_ops env req ops) req w) =
        sent (serve middleware2 env' (run_ops env' req ops) req w') \<and>
      length (printed w (serve middleware1 env (run_ops env req ops) req w)) = 2 \<and>
      (client_open env' \<longrightarrow>
         length (printed w' (serve middleware2 env' (run_ops env' req ops) req w')) = 2 \<and>
         map (without [''service'', ''requestId'', ''duration'', ''timestamp''])
             (printed w (serve middleware1 env (run_ops env req ops) req w)) =
           map (without [''service'', ''requestId'', ''duration'', ''timestamp''])
             (printed w' (serve middleware2 env' (run_ops env' req ops) req w'))) \<and>
      (\<not> client_open env' \<longrightarrow>
         printed w' (serve middleware2 env' (run_ops env' req ops) req w') =
           [started2 req (fst (requestId_of env' req w')) (clk env' (Suc (ticks w')))])) \<and>
   (final_page env' = final_page env \<longrightarrow>
      sent (app1 env NoRoute1 req w) = sent (app2 env' NoRoute2 req w')) \<and>
   length (printed w (app1 env NoRoute1 req w)) = 2 \<and>
   (client_open env' \<longrightarrow>
      length (printed w' (app2 env' NoRoute2 req w')) = 2 \<and>
      map (without [''service'', ''requestId'', ''duration'', ''timestamp''])
          (printed w (app1 env NoRoute1 req w)) =
        map (without [''service'', ''requestId'', ''duration'', ''timestamp''])
          (printed w' (app2 env' NoRoute2 req w'))) \<and>
   (\<not> client_open env' \<longrightarrow>
      printed w' (app2 env' NoRoute2 req w') =
        [started2 req (fst (requestId_of env' req w')) (clk env' (Suc (ticks w')))]) \<and>
   (end_method (res v) = LoggingEnd c NativeEnd \<longrightarrow>
      printed v (res_end env chunk encoding v) =
        [completed1 c (statusCode (res v)) (clk env (ticks v) - c_start c)
           (clk env (Suc (ticks v)))]) \<and>
   (finish_listeners (res v) = [c] \<longrightarrow>
      printed v (emit_finish env' v) =
        (if ended (res v) \<noteq> None \<and> client_open env'
         then [completed2 c (statusCode (res v)) (clk env' (ticks v) - c_start c)
                 (clk env' (Suc (ticks v)))]
         else []))"
proof -
  obtain evs where p1: "printed w (app1 env rt1 req w) =
       started1 req (fst (requestId_of env req w)) (clk env (Suc (ticks w))) # evs"
    using serve1_printed [where h = "handler1 env rt1 req" and env = env and w = w and req = req,
        OF handler1_ends_last]
    by (auto simp: app1_def)
  obtain evs' where p2: "printed w' (app2 env' rt2 req w') =
       started2 req (fst (requestId_of env' req w')) (clk env' (Suc (ticks w'))) # evs'"
    using serve2_printed [where h = "handler2 env' rt2 req" and env = env' and w = w' and req = req,
        OF handler2_ends_last]
      serve2_printed_closed [where h = "handler2 env' rt2 req" and env = env' and w = w' and req = req,
        OF handler2_ends_last]
    by (cases "client_open env'") (auto simp: app2_def)
  have starts:
    "without [''service'', ''requestId'', ''timestamp''] (hd (printed w (app1 env rt1 req w))) =
     without [''service'', ''requestId'', ''timestamp''] (hd (printed w' (app2 env' rt2 req w')))"
    unfolding p1 p2 list.sel by (rule started_up_to_service_id_timestamp)
  have same_id: "without [''service'', ''timestamp''] (hd (printed w (app1 env rt1 req w))) =
        without [''service'', ''timestamp''] (hd (printed w' (app2 env' rt2 req w')))"
    if "headers req ''x-request-id'' = Some h \<and> h \<noteq> []"
  proof -
    from that have "fst (requestId_of env req w) = h" "fst (requestId_of env' req w') = h"
      by (simp_all add: requestId_of_header)
    then show ?thesis
      unfolding p1 p2 list.sel by (simp add: started_up_to_service_timestamp)
  qed
  have scripts: "sent (serve middleware1 env (run_ops env req ops) req w) =
        sent (serve middleware2 env' (run_ops env' req ops) req w') \<and>
      length (printed w (serve middleware1 env (run_ops env req ops) req w)) = 2 \<and>
      (client_open env' \<longrightarrow>
         length (printed w' (serve middleware2 env' (run_ops env' req ops) req w')) = 2 \<and>
         map (without [''service'', ''requestId'', ''duration'', ''timestamp''])
             (printed w (serve middleware1 env (run_ops env req ops) req w)) =
           map (without [''service'', ''requestId'', ''duration'', ''timestamp''])
             (printed w' (serve middleware2 env' (run_ops env' req ops) req w'))) \<and>
      (\<not> client_open env' \<longrightarrow>
         printed w' (serve middleware2 env' (run_ops env' req ops) req w') =
           [started2 req (fst (requestId_of env' req w')) (clk env' (Suc (ticks w')))])"
    if "responds_last ops \<and> final_page env' = final_page env"
  proof -
    from that have rl: "responds_last ops" and fp: "final_page env' = final_page env" by simp_all
    obtain chunk' encoding' n where r: "script_result env req ops 200 = (chunk', encoding', n)"
      by (cases "script_result env req ops 200") auto
    have r': "script_result env' req ops 200 = (chunk', encoding', n)"
      by (simp add: script_result_final_page [OF fp] r)
    from serve1_script [OF rl r, of w] serve2_script [OF rl r', of w'] show ?thesis
      by (simp add: started_up_to_service_id_times completed_up_to_service_id_times)
  qed
  have none_sent: "sent (app1 env NoRoute1 req w) = sent (app2 env' NoRoute2 req w')"
    if "final_page env' = final_page env"
    by (simp add: no_route_runs that)
  have none1: "length (printed w (app1 env NoRoute1 req w)) = 2"
    by (simp add: no_route_runs)
  have none2: "length (printed w' (app2 env' NoRoute2 req w')) = 2 \<and>
      map (without [''service'', ''requestId'', ''duration'', ''timestamp''])
          (printed w (app1 env NoRoute1 req w)) =
        map (without [''service'', ''requestId'', ''duration'', ''timestamp''])
          (printed w' (app2 env' NoRoute2 req w'))"
    if "client_open env'"
    by (simp add: no_route_runs that started_up_to_service_id_times
        completed_up_to_service_id_times)
  have none3: "printed w' (app2 env' NoRoute2 req w') =
        [started2 req (fst (requestId_of env' req w')) (clk env' (Suc (ticks w')))]"
    if "\<not> client_open env'"
    by (simp add: no_route_runs that)
  from starts same_id scripts none_sent none1 none2 none3
    hook1_prints_on_every_call [of v c env chunk encoding]
    hook2_prints_once_finished [of v c env']
  show ?thesis by blast
qed

theorem middlewares_agree_when_ended_once_witness:
  "responds_last [Status 201, End (Some ''ok'') None] \<and>
   final_page set_back_env = final_page example_env \<and>
   final_page closed_env = final_page example_env \<and>
   client_open set_back_env \<and> \<not> client_open closed_env \<and>
   headers example_request ''x-request-id'' = Some ''abc123'' \<and>
   without [''service'', ''timestamp'']
     (hd (printed example_world (app1 example_env Health1 example_request example_world))) =
   without [''service'', ''timestamp'']
     (hd (printed (example_world\<lparr>ticks := 7\<rparr>)
        (app2 set_back_env Compute example_request (example_world\<lparr>ticks := 7\<rparr>)))) \<and>
   map (without [''service'', ''requestId'', ''duration'', ''timestamp''])
     (printed example_world
        (serve middleware1 example_env
           (run_ops example_env example_request [Status 201, End (Some ''ok'') None])
           example_request example_world)) =
   map (without [''service'', ''requestId'', ''duration'', ''timestamp''])
     (printed (example_world\<lparr>ticks := 7\<rparr>)
        (serve middleware2 set_back_env
           (run_ops set_back_env example_request [Status 201, End (Some ''ok'') None])
           example_request (example_world\<lparr>ticks := 7\<rparr>))) \<and>
   sent (serve middleware1 example_env
           (run_ops example_env example_request [Status 201, End (Some ''ok'') None])
           example_request example_world) =
   sent (serve middleware2 set_back_env
           (run_ops set_back_env example_request [Status 201, End (Some ''ok'') None])
           example_request (example_world\<lparr>ticks := 7\<rparr>)) \<and>
   printed example_world
        (serve middleware2 closed_env
           (run_ops closed_env example_request [Status 201, End (Some ''ok'') None])
           example_request example_world) =
     [started2 example_request ''abc123'' 1700000000010] \<and>
   end_method (res (middleware1 example_env example_request example_world)) =
     LoggingEnd \<lparr>c_req = example_request, c_start = 1700000000000, c_requestId = ''abc123''\<rparr>
       NativeEnd \<and>
   printed (middleware1 example_env example_request example_world)
     (res_end example_env None None (middleware1 example_env example_request example_world)) =
     [completed1 \<lparr>c_req = example_request, c_start = 1700000000000, c_requestId = ''abc123''\<rparr>
        200 20 1700000000030] \<and>
   finish_listeners (res (middleware2 example_env example_request example_world)) =
     [\<lparr>c_req = example_request, c_start = 1700000000000, c_requestId = ''abc123''\<rparr>] \<and>
   printed (middleware2 example_env example_request example_world)
     (emit_finish example_env (middleware2 example_env example_request example_world)) = [] \<and>
   printed (res_end example_env (Some ''ok'') None
              (middleware2 example_env example_request example_world))
     (emit_finish example_env
        (res_end example_env (Some ''ok'') None
           (middleware2 example_env example_request example_world))) =
     [completed2 \<lparr>c_req = example_request, c_start = 1700000000000, c_requestId = ''abc123''\<rparr>
        200 20 1700000000030] \<and>
   printed (res_end example_env (Some ''ok'') None
              (middleware2 example_env example_request example_world))
     (emit_finish closed_env
        (res_end example_env (Some ''ok'') None
           (middleware2 example_env example_request example_world))) = []"
proof -
  define c where
    "c = \<lparr>c_req = example_request, c_start = 1700000000000, c_requestId = ''abc123''\<rparr>"
  define m1 where "m1 = middleware1 example_env example_request example_world"
  define m2 where "m2 = middleware2 example_env example_request example_world"
  define f2 where "f2 = res_end example_env (Some ''ok'') None m2"
  define w7 where "w7 = example_world\<lparr>ticks := 7\<rparr>"
  define ops where "ops = [Status 201, End (Some ''ok'') None]"
  have r: "responds_last ops" by (simp add: ops_def)
  have fp: "final_page set_back_env = final_page example_env"
    "final_page closed_env = final_page example_env"
    by (simp_all add: set_back_env_def closed_env_def)
  have o: "client_open set_back_env" "\<not> client_open closed_env" "client_open example_env"
    by (simp_all add: set_back_env_def closed_env_def example_env_def)
  have hd: "headers example_request ''x-request-id'' = Some ''abc123'' \<and> ''abc123'' \<noteq> []"
    by (simp add: example_request_def)
  have e: "end_method (res m1) = LoggingEnd c NativeEnd"
    by (simp add: m1_def c_def middleware1_effect)
      (simp add: example_request_def example_env_def example_world_def requestId_of_def
        new_response_def)
  have l: "finish_listeners (res m2) = [c]"
    by (simp add: m2_def c_def middleware2_effect)
      (simp add: example_request_def example_env_def example_world_def requestId_of_def
        new_response_def)
  have u: "ended (res m2) = None" "end_method (res m2) = NativeEnd"
    by (simp_all add: m2_def middleware2_effect) (simp_all add: example_world_def new_response_def)
  have v: "statusCode (res m1) = 200" "ticks m1 = 2"
    by (simp_all add: m1_def middleware1_effect) (simp_all add: example_world_def new_response_def)
  have f: "finish_listeners (res f2) = [c]" "ended (res f2) \<noteq> None"
    "statusCode (res f2) = 200" "ticks f2 = 2"
    by (simp_all add: f2_def res_end_native [OF u(2)] u l)
      (simp_all add: m2_def middleware2_effect example_world_def new_response_def)
  have i: "fst (requestId_of closed_env example_request example_world) = ''abc123''"
    using hd by (simp add: requestId_of_header)
  note same = middlewares_agree_when_ended_once
    [where w = example_world and env = example_env and req = example_request
       and w' = w7 and env' = set_back_env and ops = ops and h = "''abc123''"
       and ?rt1.0 = Health1 and ?rt2.0 = Compute]
  note gone = middlewares_agree_when_ended_once
    [where w = example_world and env = example_env and req = example_request
       and w' = example_world and env' = closed_env and ops = ops]
  from same hd have a0:
    "without [''service'', ''timestamp'']
       (hd (printed example_world (app1 example_env Health1 example_request example_world))) =
     without [''service'', ''timestamp'']
       (hd (printed w7 (app2 set_back_env Compute example_request w7)))"
    by blast
  from same r fp(1) o(1) have a:
    "map (without [''service'', ''requestId'', ''duration'', ''timestamp''])
       (printed example_world
          (serve middleware1 example_env (run_ops example_env example_request ops)
             example_request example_world)) =
     map (without [''service'', ''requestId'', ''duration'', ''timestamp''])
       (printed w7
          (serve middleware2 set_back_env (run_ops set_back_env example_request ops)
             example_request w7))"
    "sent (serve middleware1 example_env (run_ops example_env example_request ops)
             example_request example_world) =
     sent (serve middleware2 set_back_env (run_ops set_back_env example_request ops)
             example_request w7)"
    by blast+
  from gone r fp(2) o(2) have
    "printed example_world
        (serve middleware2 closed_env (run_ops closed_env example_request ops)
           example_request example_world) =
     [started2 example_request (fst (requestId_of closed_env example_request example_world))
        (clk closed_env (Suc (ticks example_world)))]"
    by blast
  then have g: "printed example_world
        (serve middleware2 closed_env (run_ops closed_env example_request ops)
           example_request example_world) =
     [started2 example_request ''abc123'' 1700000000010]"
    by (simp add: i) (simp add: closed_env_def example_env_def example_world_def)
  from middlewares_agree_when_ended_once
    [where v = m1 and env = example_env and c = c and chunk = None and encoding = None] e
  have "printed m1 (res_end example_env None None m1) =
      [completed1 c (statusCode (res m1)) (clk example_env (ticks m1) - c_start c)
         (clk example_env (Suc (ticks m1)))]"
    by blast
  then have b: "printed m1 (res_end example_env None None m1) = [completed1 c 200 20 1700000000030]"
    by (simp add: v c_def example_env_def)
  from middlewares_agree_when_ended_once [where v = m2 and env' = example_env and c = c] l
  have "printed m2 (emit_finish example_env m2) =
      (if ended (res m2) \<noteq> None \<and> client_open example_env
       then [completed2 c (statusCode (res m2)) (clk example_env (ticks m2) - c_start c)
               (clk example_env (Suc (ticks m2)))]
       else [])"
    by blast
  then have d: "printed m2 (emit_finish example_env m2) = []"
    by (simp add: u)
  from middlewares_agree_when_ended_once [where v = f2 and env' = example_env and c = c] f(1)
  have "printed f2 (emit_finish example_env f2) =
      (if ended (res f2) \<noteq> None \<and> client_open example_env
       then [completed2 c (statusCode (res f2)) (clk example_env (ticks f2) - c_start c)
               (clk example_env (Suc (ticks f2)))]
       else [])"
    by blast
  then have d1: "printed f2 (emit_finish example_env f2) = [completed2 c 200 20 1700000000030]"
    using f(2) by (simp add: f o c_def) (simp add: example_env_def)
  from middlewares_agree_when_ended_once [where v = f2 and env' = closed_env and c = c] f(1)
  have "printed f2 (emit_finish closed_env f2) =
      (if ended (res f2) \<noteq> None \<and> client_open closed_env
       then [completed2 c (statusCode (res f2)) (clk closed_env (ticks f2) - c_start c)
               (clk closed_env (Suc (ticks f2)))]
       else [])"
    by blast
  then have d2: "printed f2 (emit_finish closed_env f2) = []"
    by (simp add: o)
  from r fp o hd a0 a g e b l d d1 d2 show ?thesis
    unfolding c_def m1_def m2_def f2_def w7_def ops_def by blast
qed

end
